theory Spec2Isabelle
  imports Complex_Main "HOL-Library.Word" "HOL-Library.AList"
begin

unbundle bit_operations_syntax

section \<open>VIIRS EDR reader (satpy/readers/viirs_edr.py)\<close>

subsection \<open>Python values, dictionaries and exceptions\<close>

text \<open>
  Exceptions of the host language are values: every function of the reader that can
  raise returns \<open>error + 'a\<close>, with \<open>Inl\<close> the exception.
\<close>

datatype error = KeyError | IndexError | TypeError | ValueError

text \<open>
  The values stored in metadata dictionaries (\<open>ds_info\<close>, \<open>attrs\<close>): Python's
  \<open>None\<close>, numbers, strings, and flat sequences of numbers or of strings (tuples, lists
  and one-dimensional arrays).
\<close>

datatype val =
    VNone
  | VNum real
  | VStr string
  | VNums "real list"
  | VStrs "string list"

text \<open>
  A Python \<open>dict\<close> keeps insertion order: an association list with distinct keys.
  \<open>d[k] = v\<close> is \<open>AList.update k v d\<close> (in place for a known key, appended for a new
  one), \<open>del d[k]\<close> is \<open>AList.delete k d\<close>, \<open>k in d\<close> is \<open>map_of d k \<noteq> None\<close>.
\<close>

type_synonym pydict = "(string \<times> val) list"

definition dict_get :: "pydict \<Rightarrow> string \<Rightarrow> val \<Rightarrow> val" where
  \<comment> \<open>\<open>d.get(k, default)\<close>\<close>
  "dict_get d k dflt = (case map_of d k of None \<Rightarrow> dflt | Some v \<Rightarrow> v)"

definition dict_item :: "pydict \<Rightarrow> string \<Rightarrow> error + val" where
  \<comment> \<open>\<open>d[k]\<close>, raising \<open>KeyError\<close>\<close>
  "dict_item d k = (case map_of d k of None \<Rightarrow> Inl KeyError | Some v \<Rightarrow> Inr v)"

definition bind_err :: "error + 'a \<Rightarrow> ('a \<Rightarrow> error + 'b) \<Rightarrow> error + 'b" where
  \<comment> \<open>sequencing: the first exception ends the computation\<close>
  "bind_err m f = (case m of Inl e \<Rightarrow> Inl e | Inr x \<Rightarrow> f x)"

subsection \<open>Strings\<close>

text \<open>
  Platform short names and variable names are ASCII. \<open>str.upper\<close> and \<open>str.lower\<close>
  map the 26 letters and leave every other character alone.
\<close>

definition lower_letters :: string where
  "lower_letters = ''abcdefghijklmnopqrstuvwxyz''"

definition upper_letters :: string where
  "upper_letters = ''ABCDEFGHIJKLMNOPQRSTUVWXYZ''"

definition upper_char :: "char \<Rightarrow> char" where
  "upper_char c = (case map_of (zip lower_letters upper_letters) c of None \<Rightarrow> c | Some u \<Rightarrow> u)"

definition lower_char :: "char \<Rightarrow> char" where
  "lower_char c = (case map_of (zip upper_letters lower_letters) c of None \<Rightarrow> c | Some l \<Rightarrow> l)"

definition upper :: "string \<Rightarrow> string" where
  "upper s = map upper_char s"

definition lower :: "string \<Rightarrow> string" where
  "lower s = map lower_char s"

fun contains :: "string \<Rightarrow> string \<Rightarrow> bool" where
  \<comment> \<open>\<open>sub in s\<close> on strings\<close>
  "contains sub [] = (sub = [])"
| "contains sub (c # cs) = (take (length sub) (c # cs) = sub \<or> contains sub cs)"

fun split_on :: "char \<Rightarrow> string \<Rightarrow> string list" where
  \<comment> \<open>\<open>s.split(sep)\<close> for a one-character separator\<close>
  "split_on sep [] = [[]]"
| "split_on sep (c # cs) =
     (if c = sep then [] # split_on sep cs
      else (case split_on sep cs of [] \<Rightarrow> [[c]] | w # ws \<Rightarrow> (c # w) # ws))"

subsection \<open>\<open>VIIRSJRRFileHandler.platform_name\<close>\<close>

definition platform_dict :: "(string \<times> string) list" where
  "platform_dict =
     [(''NPP'', ''Suomi-NPP''),
      (''JPSS-1'', ''NOAA-20''),
      (''J01'', ''NOAA-20''),
      (''JPSS-2'', ''NOAA-21''),
      (''J02'', ''NOAA-21'')]"

definition platform_name :: "string \<Rightarrow> error + string" where
  \<comment> \<open>the argument is \<open>filename_info['platform_shortname']\<close>\<close>
  "platform_name platform_path =
     (case map_of platform_dict (upper platform_path) of
        None \<Rightarrow> Inl KeyError
      | Some name \<Rightarrow> Inr name)"

subsection \<open>Arrays and the opened file\<close>

text \<open>
  An array is its shape and its elements in row-major order. Float elements are
  \<open>real option\<close>, with \<open>None\<close> for NaN (a fill value that the file layer has already
  masked, or an element masked here); quality-flag bytes are \<open>8 word\<close>.
\<close>

datatype payload = FloatArr "real option list" | ByteArr "8 word list"

text \<open>
  A variable of the opened dataset, and the \<open>DataArray\<close> that \<open>self.nc[name]\<close> gives:
  shape, elements, attributes, and the names of the non-index coordinates attached to it.
\<close>

record data_array =
  shape :: "nat list"
  payload_of :: payload
  attrs :: pydict
  coords :: "string list"

text \<open>
  The file handler: \<open>self.nc\<close> (the variables in file order),
  \<open>filename_info['platform_shortname']\<close> and \<open>filetype_info['file_type']\<close>. The
  surface-reflectance handler adds \<open>_filter_veg\<close>.
\<close>

record handler =
  nc :: "(string \<times> data_array) list"
  platform_shortname :: string
  file_type :: string

record sr_handler = handler +
  filter_veg :: bool

definition M_COLS :: nat where
  "M_COLS = 3200"

definition nc_item :: "(string \<times> data_array) list \<Rightarrow> val \<Rightarrow> error + data_array" where
  \<comment> \<open>\<open>self.nc[key]\<close>: a key that is not a string names no variable\<close>
  "nc_item vars key =
     (case key of
        VStr name \<Rightarrow> (case map_of vars name of None \<Rightarrow> Inl KeyError | Some a \<Rightarrow> Inr a)
      | _ \<Rightarrow> Inl KeyError)"

definition nc_contains :: "(string \<times> data_array) list \<Rightarrow> val \<Rightarrow> bool" where
  \<comment> \<open>\<open>key in self.nc\<close>\<close>
  "nc_contains vars key = (case key of VStr name \<Rightarrow> map_of vars name \<noteq> None | _ \<Rightarrow> False)"

subsection \<open>Element-wise array operations of the array library\<close>

definition as_float :: "payload \<Rightarrow> real option list" where
  \<comment> \<open>the elements as floats; a byte is its unsigned value\<close>
  "as_float p =
     (case p of FloatArr xs \<Rightarrow> xs | ByteArr ws \<Rightarrow> map (\<lambda>w. Some (real (unat w))) ws)"

definition scalar_le_arr :: "real \<Rightarrow> payload \<Rightarrow> bool list" where
  \<comment> \<open>\<open>lo <= arr\<close>; a comparison with NaN is false\<close>
  "scalar_le_arr lo p = map (\<lambda>x. case x of None \<Rightarrow> False | Some v \<Rightarrow> lo \<le> v) (as_float p)"

definition arr_le_scalar :: "payload \<Rightarrow> real \<Rightarrow> bool list" where
  \<comment> \<open>\<open>arr <= hi\<close>\<close>
  "arr_le_scalar p hi = map (\<lambda>x. case x of None \<Rightarrow> False | Some v \<Rightarrow> v \<le> hi) (as_float p)"

definition where_cond :: "payload \<Rightarrow> bool list \<Rightarrow> payload" where
  \<comment> \<open>\<open>arr.where(cond)\<close> for a condition of the array's shape: a float array that keeps
      the element where the condition holds and holds NaN elsewhere\<close>
  "where_cond p cond = FloatArr (map2 (\<lambda>x c. if c then x else None) (as_float p) cond)"

definition imul_scalar :: "payload \<Rightarrow> real \<Rightarrow> payload" where
  \<comment> \<open>\<open>arr *= k\<close> for a float \<open>k\<close>; NaN stays NaN\<close>
  "imul_scalar p k = FloatArr (map (map_option (\<lambda>x. x * k)) (as_float p))"

definition val_item :: "val \<Rightarrow> nat \<Rightarrow> error + val" where
  \<comment> \<open>\<open>v[i]\<close> for \<open>i \<ge> 0\<close>\<close>
  "val_item v i =
     (case v of
        VNums xs \<Rightarrow> (if i < length xs then Inr (VNum (xs ! i)) else Inl IndexError)
      | VStrs ss \<Rightarrow> (if i < length ss then Inr (VStr (ss ! i)) else Inl IndexError)
      | VStr s \<Rightarrow> (if i < length s then Inr (VStr [s ! i]) else Inl IndexError)
      | _ \<Rightarrow> Inl TypeError)"

definition bound_of :: "val \<Rightarrow> error + real" where
  \<comment> \<open>a bound that an array can be compared with: a number\<close>
  "bound_of v = (case v of VNum x \<Rightarrow> Inr x | _ \<Rightarrow> Inl TypeError)"

subsection \<open>\<open>VIIRSJRRFileHandler._mask_invalid\<close>\<close>

definition in_range_where :: "data_array \<Rightarrow> error + val \<Rightarrow> error + val \<Rightarrow> error + data_array" where
  \<comment> \<open>\<open>data_arr.where((valid_range[0] <= data_arr) & (data_arr <= valid_range[1]))\<close>,
      the two arguments being \<open>valid_range[0]\<close> and \<open>valid_range[1]\<close>\<close>
  "in_range_where data_arr vr0 vr1 =
     bind_err vr0 (\<lambda>v0.
     bind_err (bound_of v0) (\<lambda>lo.
     bind_err vr1 (\<lambda>v1.
     bind_err (bound_of v1) (\<lambda>hi.
       Inr (data_arr\<lparr>payload_of :=
         where_cond (payload_of data_arr)
           (map2 (\<and>) (scalar_le_arr lo (payload_of data_arr))
                      (arr_le_scalar (payload_of data_arr) hi))\<rparr>)))))"

definition mask_invalid :: "data_array \<Rightarrow> pydict \<Rightarrow> error + data_array" where
  "mask_invalid data_arr ds_info =
     (let valid_range = dict_get ds_info ''valid_range'' (dict_get (attrs data_arr) ''valid_range'' VNone)
      in if map_of (attrs data_arr) ''valid_min'' \<noteq> None \<and> valid_range = VNone then
           bind_err (dict_item (attrs data_arr) ''valid_min'') (\<lambda>vmin.
           bind_err (dict_item (attrs data_arr) ''valid_max'') (\<lambda>vmax.
             in_range_where data_arr (Inr vmin) (Inr vmax)))
         else if valid_range \<noteq> VNone then
           in_range_where data_arr (val_item valid_range 0) (val_item valid_range 1)
         else Inr data_arr)"

subsection \<open>\<open>VIIRSJRRFileHandler.get_dataset\<close>\<close>

definition rows_per_scans :: "data_array \<Rightarrow> error + nat" where
  \<comment> \<open>\<open>data_arr.shape[1]\<close> raises \<open>IndexError\<close> below two dimensions\<close>
  "rows_per_scans data_arr =
     (if length (shape data_arr) < 2 then Inl IndexError
      else Inr (if shape data_arr ! 1 = M_COLS then 16 else 32))"

definition decode_flag_meanings :: "data_array \<Rightarrow> data_array" where
  "decode_flag_meanings data_arr =
     (case dict_get (attrs data_arr) ''flag_meanings'' VNone of
        VStr flag_meanings \<Rightarrow>
          (if \<not> contains [CHR 0x0A] flag_meanings then
             data_arr\<lparr>attrs := AList.update ''flag_meanings''
               (VStrs (split_on CHR '' '' flag_meanings)) (attrs data_arr)\<rparr>
           else data_arr)
      | _ \<Rightarrow> data_arr)"

definition resolve_units :: "pydict \<Rightarrow> data_array \<Rightarrow> val" where
  \<comment> \<open>\<open>units = info.get("units", data_arr.attrs.get("units"))\<close>, then \<open>"1"\<close> for
      \<open>None\<close> and \<open>"unitless"\<close>\<close>
  "resolve_units info data_arr =
     (let units = dict_get info ''units'' (dict_get (attrs data_arr) ''units'' VNone)
      in if units = VNone \<or> units = VStr ''unitless'' then VStr ''1'' else units)"

definition apply_units :: "val \<Rightarrow> data_array \<Rightarrow> data_array" where
  \<comment> \<open>the percentage conversion, then \<open>data_arr.attrs["units"] = units\<close>\<close>
  "apply_units units data_arr =
     (let data_arr =
            (if units = VStr ''%'' \<and>
                dict_get (attrs data_arr) ''units'' VNone \<in> {VStr ''1'', VStr ''unitless''}
             then data_arr\<lparr>payload_of := imul_scalar (payload_of data_arr) 100\<rparr>
             else data_arr)
      in data_arr\<lparr>attrs := AList.update ''units'' units (attrs data_arr)\<rparr>)"

definition set_standard_name :: "pydict \<Rightarrow> data_array \<Rightarrow> data_array" where
  \<comment> \<open>\<open>if "standard_name" in info: data_arr.attrs["standard_name"] = info["standard_name"]\<close>\<close>
  "set_standard_name info data_arr =
     (case map_of info ''standard_name'' of
        Some sn \<Rightarrow> data_arr\<lparr>attrs := AList.update ''standard_name'' sn (attrs data_arr)\<rparr>
      | None \<Rightarrow> data_arr)"

definition set_attr :: "string \<Rightarrow> val \<Rightarrow> data_array \<Rightarrow> data_array" where
  \<comment> \<open>\<open>data_arr.attrs[k] = v\<close>\<close>
  "set_attr k v data_arr = data_arr\<lparr>attrs := AList.update k v (attrs data_arr)\<rparr>"

definition drop_lonlat_coords :: "data_array \<Rightarrow> data_array" where
  \<comment> \<open>\<open>data_arr.reset_coords(drop=True)\<close> for a longitude or a latitude\<close>
  "drop_lonlat_coords data_arr =
     (if dict_get (attrs data_arr) ''standard_name'' VNone \<in> {VStr ''longitude'', VStr ''latitude''}
      then data_arr\<lparr>coords := []\<rparr>
      else data_arr)"

definition get_dataset ::
  "(data_array \<Rightarrow> pydict \<Rightarrow> error + data_array) \<Rightarrow> 'a handler_scheme \<Rightarrow> pydict \<Rightarrow> error + data_array"
where
  \<comment> \<open>the first argument is the class's \<open>_mask_invalid\<close>; \<open>dataset_id\<close> is not used\<close>
  "get_dataset self_mask_invalid self info =
     bind_err (dict_item info ''file_key'') (\<lambda>file_key.
     bind_err (nc_item (nc self) file_key) (\<lambda>data_arr.
     bind_err (self_mask_invalid data_arr info) (\<lambda>data_arr.
       let units = resolve_units info data_arr;
           data_arr = apply_units units data_arr;
           data_arr = set_standard_name info data_arr;
           data_arr = decode_flag_meanings data_arr
       in
     bind_err (platform_name (platform_shortname self)) (\<lambda>pname.
       let data_arr = set_attr ''platform_name'' (VStr pname) data_arr;
           data_arr = set_attr ''sensor'' (VStr ''viirs'') data_arr
       in
     bind_err (rows_per_scans data_arr) (\<lambda>rps.
       let data_arr = set_attr ''rows_per_scan'' (VNum (real rps)) data_arr
       in Inr (drop_lonlat_coords data_arr))))))"

definition jrr_get_dataset :: "handler \<Rightarrow> pydict \<Rightarrow> error + data_array" where
  "jrr_get_dataset self info = get_dataset mask_invalid self info"

subsection \<open>\<open>VIIRSJRRFileHandler.available_datasets\<close>\<close>

text \<open>
  A generator is the list of what it yields, in order, with the exception that ended it,
  if one did. \<open>file_type_matches\<close> belongs to the base class \<open>BaseFileHandler\<close>, which
  is outside this module: it is a parameter, whose result \<open>None\<close> is Python's \<open>None\<close>.
\<close>

type_synonym avail = "bool option \<times> pydict"

definition dynamic_variable :: "string \<Rightarrow> val set \<Rightarrow> string \<times> data_array \<Rightarrow> (bool \<times> pydict) list" where
  \<comment> \<open>one pass of the loop of \<open>_dynamic_variables_from_file\<close>: what it yields for one variable\<close>
  "dynamic_variable ftype handled_var_names entry =
     (let var_name = fst entry;
          data_arr = snd entry;
          m_lon_name = ''longitude_'' @ ftype;
          m_lat_name = ''latitude_'' @ ftype;
          m_coords = VStrs [m_lon_name, m_lat_name];
          i_lon_name = ''longitude_i_'' @ ftype;
          i_lat_name = ''latitude_i_'' @ ftype;
          i_coords = VStrs [i_lon_name, i_lat_name];
          is_lon = contains ''longitude'' (lower var_name);
          is_lat = contains ''latitude'' (lower var_name)
      in if VStr var_name \<in> handled_var_names \<and> \<not> (is_lon \<or> is_lat) then []
         else if length (shape data_arr) \<noteq> 2 then []
         else
           let res = (if shape data_arr ! 1 = M_COLS then 750 else 375 :: nat);
               ds_info =
                 [(''file_key'', VStr var_name),
                  (''file_type'', VStr ftype),
                  (''name'', VStr var_name),
                  (''resolution'', VNum (real res)),
                  (''coordinates'', if res = 750 then m_coords else i_coords)];
               ds_info =
                 (if is_lon then
                    AList.delete ''coordinates''
                      (AList.update ''name'' (VStr (if res = 750 then m_lon_name else i_lon_name))
                        (AList.update ''units'' (VStr ''degrees_east'')
                          (AList.update ''standard_name'' (VStr ''longitude'') ds_info)))
                  else if is_lat then
                    AList.delete ''coordinates''
                      (AList.update ''name'' (VStr (if res = 750 then m_lat_name else i_lat_name))
                        (AList.update ''units'' (VStr ''degrees_north'')
                          (AList.update ''standard_name'' (VStr ''latitude'') ds_info)))
                  else ds_info)
           in [(True, ds_info)])"

definition dynamic_variables_from_file :: "'a handler_scheme \<Rightarrow> val set \<Rightarrow> (bool \<times> pydict) list" where
  "dynamic_variables_from_file self handled_var_names =
     concat (map (dynamic_variable (file_type self) handled_var_names) (nc self))"

definition configured_dataset ::
  "(val \<Rightarrow> bool option) \<Rightarrow> 'a handler_scheme \<Rightarrow> avail \<Rightarrow> error + (val \<times> avail list)"
where
  \<comment> \<open>one pass of the loop over \<open>configured_datasets\<close>: the \<open>file_key\<close> it records as
      handled and what it yields\<close>
  "configured_dataset file_type_matches self entry =
     (let is_avail = fst entry; ds_info = snd entry in
      bind_err (dict_item ds_info ''name'') (\<lambda>name.
        let file_key = dict_get ds_info ''file_key'' name in
        if is_avail \<noteq> None then Inr (file_key, [(is_avail, ds_info)])
        else
          bind_err (dict_item ds_info ''file_type'') (\<lambda>ds_ftype.
            Inr (file_key,
              (if file_type_matches ds_ftype = None then [(None, ds_info)] else []) @
              [(Some (nc_contains (nc self) file_key), ds_info)]))))"

fun configured_loop ::
  "(val \<Rightarrow> bool option) \<Rightarrow> 'a handler_scheme \<Rightarrow> avail list \<Rightarrow> val set \<Rightarrow> avail list \<times> (error + val set)"
where
  "configured_loop file_type_matches self [] handled_var_names = ([], Inr handled_var_names)"
| "configured_loop file_type_matches self (entry # rest) handled_var_names =
     (case configured_dataset file_type_matches self entry of
        Inl e \<Rightarrow> ([], Inl e)
      | Inr (file_key, yielded) \<Rightarrow>
          (case configured_loop file_type_matches self rest (insert file_key handled_var_names) of
             (later, r) \<Rightarrow> (yielded @ later, r)))"

definition available_datasets ::
  "(val \<Rightarrow> bool option) \<Rightarrow> 'a handler_scheme \<Rightarrow> avail list \<Rightarrow> avail list \<times> error option"
where
  \<comment> \<open>\<open>configured_datasets\<close> is the list, \<open>[]\<close> for \<open>None\<close>\<close>
  "available_datasets file_type_matches self configured_datasets =
     (case configured_loop file_type_matches self configured_datasets {} of
        (yielded, Inl e) \<Rightarrow> (yielded, Some e)
      | (yielded, Inr handled_var_names) \<Rightarrow>
          (yielded @
             map (\<lambda>(is_avail, ds_info). (Some is_avail, ds_info))
               (dynamic_variables_from_file self handled_var_names),
           None))"

subsection \<open>\<open>VIIRSSurfaceReflectanceWithVIHandler\<close>\<close>

fun chunks :: "nat \<Rightarrow> 'a list \<Rightarrow> 'a list list" where
  \<comment> \<open>a list cut into consecutive blocks of \<open>n\<close> elements\<close>
  "chunks n xs = (if n = 0 \<or> xs = [] then [] else take n xs # chunks n (drop n xs))"

declare chunks.simps [simp del]

definition np_repeat2 :: "nat \<Rightarrow> nat list \<times> 'a list \<Rightarrow> error + nat list \<times> 'a list" where
  \<comment> \<open>\<open>arr.repeat(2, axis=axis)\<close> on a row-major array: every block that one index along
      the axis spans is doubled; an axis the array does not have is an error\<close>
  "np_repeat2 axis arr =
     (let shp = fst arr; xs = snd arr in
      if axis < length shp then
        Inr (shp[axis := 2 * shp ! axis],
             concat (map (\<lambda>block. block @ block) (chunks (prod_list (drop (Suc axis) shp)) xs)))
      else Inl ValueError)"

definition flag_bytes :: "data_array \<Rightarrow> error + 8 word list" where
  \<comment> \<open>the operand of \<open>&\<close>: bitwise and is not defined on floats\<close>
  "flag_bytes a = (case payload_of a of ByteArr ws \<Rightarrow> Inr ws | FloatArr _ \<Rightarrow> Inl TypeError)"

definition or_masks :: "bool list list \<Rightarrow> bool list" where
  \<comment> \<open>\<open>m1 | m2 | ...\<close> on masks of one shape\<close>
  "or_masks ms = (case ms of [] \<Rightarrow> [] | m # rest \<Rightarrow> foldl (map2 (\<or>)) m rest)"

definition get_veg_index_good_mask :: "'a handler_scheme \<Rightarrow> error + nat list \<times> bool list" where
  "get_veg_index_good_mask self =
     bind_err (nc_item (nc self) (VStr ''QF1 Surface Reflectance'')) (\<lambda>qf1_arr.
     bind_err (flag_bytes qf1_arr) (\<lambda>qf1.
       let has_sun_glint = map (\<lambda>q. (q AND 0b11000000) > 0) qf1;
           is_cloudy = map (\<lambda>q. (q AND 0b00001100) > 0) qf1;
           cloud_quality = map (\<lambda>q. (q AND 0b00000011) < 0b10) qf1
       in
     bind_err (nc_item (nc self) (VStr ''QF2 Surface Reflectance'')) (\<lambda>qf2_arr.
     bind_err (flag_bytes qf2_arr) (\<lambda>qf2.
       let has_snow_or_ice = map (\<lambda>q. (q AND 0b00100000) > 0) qf2;
           has_cloud_shadow = map (\<lambda>q. (q AND 0b00001000) > 0) qf2;
           water_mask = map (\<lambda>q. q AND 0b00000111) qf2;
           has_water = map (\<lambda>w. w \<le> 0b010 \<or> w = 0b101) water_mask
       in
     bind_err (nc_item (nc self) (VStr ''QF7 Surface Reflectance'')) (\<lambda>qf7_arr.
     bind_err (flag_bytes qf7_arr) (\<lambda>qf7.
       let has_aerosols = map (\<lambda>q. (q AND 0b00001100) > 0b1000) qf7;
           adjacent_to_cloud = map (\<lambda>q. (q AND 0b00000010) > 0) qf7
       in
         if shape qf2_arr = shape qf1_arr \<and> shape qf7_arr = shape qf1_arr then
           let bad_mask = or_masks
                 [has_sun_glint, is_cloudy, cloud_quality, has_snow_or_ice,
                  has_cloud_shadow, has_water, has_aerosols, adjacent_to_cloud]
           in
             bind_err (np_repeat2 1 (shape qf1_arr, bad_mask)) (\<lambda>rep1.
             bind_err (np_repeat2 0 rep1) (\<lambda>bad_mask_iband.
               Inr (fst bad_mask_iband, map Not (snd bad_mask_iband))))
         else Inl ValueError))))))"

definition sr_mask_invalid :: "sr_handler \<Rightarrow> data_array \<Rightarrow> pydict \<Rightarrow> error + data_array" where
  "sr_mask_invalid self data_arr ds_info =
     bind_err (mask_invalid data_arr ds_info) (\<lambda>new_data_arr.
     bind_err (dict_item ds_info ''file_key'') (\<lambda>file_key.
       if file_key \<in> {VStr ''NDVI'', VStr ''EVI''} \<and> filter_veg self then
         bind_err (get_veg_index_good_mask self) (\<lambda>good_mask.
           if fst good_mask = shape new_data_arr then
             Inr (new_data_arr\<lparr>payload_of := where_cond (payload_of new_data_arr) (snd good_mask)\<rparr>)
           else Inl ValueError)
       else Inr new_data_arr))"

definition sr_get_dataset :: "sr_handler \<Rightarrow> pydict \<Rightarrow> error + data_array" where
  "sr_get_dataset self info = get_dataset (sr_mask_invalid self) self info"

subsection \<open>\<open>VIIRSLSTHandler\<close>\<close>

text \<open>
  The array library's \<open>*\<close> and \<open>+\<close> on arrays (with its broadcasting rules) are
  parameters of the model: functions on a shape and its elements that may raise.
\<close>

type_synonym ndarray = "nat list \<times> payload"

type_synonym arith = "ndarray \<Rightarrow> ndarray \<Rightarrow> error + ndarray"

definition manual_scalings :: "(string \<times> string \<times> string) list" where
  "manual_scalings =
     [(''VLST'', ''LST_ScaleFact'', ''LST_Offset''),
      (''emis_m15'', ''LSE_ScaleFact'', ''LSE_Offset''),
      (''emis_m16'', ''LSE_ScaleFact'', ''LSE_Offset''),
      (''emis_bbe'', ''LSE_ScaleFact'', ''LSE_Offset''),
      (''Satellite_Azimuth_Angle'', ''AZI_ScaleFact'', ''AZI_Offset'')]"

definition ndarray_of :: "data_array \<Rightarrow> ndarray" where
  \<comment> \<open>\<open>data_arr.data\<close>\<close>
  "ndarray_of a = (shape a, payload_of a)"

definition rescale :: "arith \<Rightarrow> arith \<Rightarrow> data_array \<Rightarrow> data_array \<Rightarrow> data_array \<Rightarrow> error + data_array" where
  \<comment> \<open>\<open>data_arr.data = data_arr.data * scale_factor.data + add_offset.data\<close>; the
      assignment refuses data of another shape\<close>
  "rescale mul add data_arr scale_factor add_offset =
     bind_err (mul (ndarray_of data_arr) (ndarray_of scale_factor)) (\<lambda>scaled.
     bind_err (add scaled (ndarray_of add_offset)) (\<lambda>new_data.
       if fst new_data = shape data_arr then Inr (data_arr\<lparr>payload_of := snd new_data\<rparr>)
       else Inl ValueError))"

fun scale_loop :: "arith \<Rightarrow> arith \<Rightarrow> string list \<Rightarrow> (string \<times> data_array) list \<Rightarrow> error + (string \<times> data_array) list" where
  "scale_loop mul add [] vars = Inr vars"
| "scale_loop mul add (var_name # rest) vars =
     (case map_of manual_scalings var_name of
        None \<Rightarrow> scale_loop mul add rest vars
      | Some names \<Rightarrow>
          bind_err (nc_item vars (VStr var_name)) (\<lambda>data_arr.
          bind_err (nc_item vars (VStr (fst names))) (\<lambda>scale_factor.
          bind_err (nc_item vars (VStr (snd names))) (\<lambda>add_offset.
          bind_err (rescale mul add data_arr scale_factor add_offset) (\<lambda>data_arr.
            scale_loop mul add rest (AList.update var_name data_arr vars))))))"

definition scale_data :: "arith \<Rightarrow> arith \<Rightarrow> handler \<Rightarrow> error + handler" where
  \<comment> \<open>the loop runs over \<open>list(self.nc.variables.keys())\<close>, the names at its start\<close>
  "scale_data mul add self =
     bind_err (scale_loop mul add (map fst (nc self)) (nc self)) (\<lambda>vars. Inr (self\<lparr>nc := vars\<rparr>))"

definition scalar_arith :: "(real \<Rightarrow> real \<Rightarrow> real) \<Rightarrow> arith" where
  \<comment> \<open>an instance of the library's arithmetic, used in the examples: a scalar second
      operand broadcasts over the first and NaN propagates; this instance refuses every
      other second operand\<close>
  "scalar_arith f a b =
     (case (fst b, as_float (snd b)) of
        ([], [y]) \<Rightarrow>
          Inr (fst a, FloatArr (map (\<lambda>x. case (x, y) of (Some u, Some v) \<Rightarrow> Some (f u v) | _ \<Rightarrow> None)
                                   (as_float (snd a))))
      | _ \<Rightarrow> Inl ValueError)"

subsection \<open>Example files\<close>

definition ex_refl :: data_array where
  "ex_refl = \<lparr>shape = [1, 3], payload_of = FloatArr [Some (1/2), None, Some 2],
      attrs = [(''units'', VStr ''unitless''), (''valid_min'', VNum 0), (''valid_max'', VNum 1)],
      coords = [''Longitude'', ''Latitude'']\<rparr>"

definition ex_handler :: handler where
  "ex_handler = \<lparr>nc = [(''refl'', ex_refl)], platform_shortname = ''j01'', file_type = ''jrr_x''\<rparr>"

definition ex_plain :: data_array where
  "ex_plain = \<lparr>shape = [2, 2], payload_of = FloatArr [Some (-1), Some 0, None, Some 7],
      attrs = [], coords = []\<rparr>"

definition ex_lon :: data_array where
  "ex_lon = \<lparr>shape = [1, 2], payload_of = FloatArr [Some 10, Some 11],
      attrs = [(''standard_name'', VStr ''longitude'')], coords = [''Latitude'']\<rparr>"

definition ex_geo :: handler where
  "ex_geo = \<lparr>nc = [(''Longitude'', ex_lon), (''refl'', ex_refl)],
      platform_shortname = ''j01'', file_type = ''jrr_x''\<rparr>"

definition ex_configured :: pydict where
  "ex_configured = [(''name'', VStr ''cloud_mask''), (''file_type'', VStr ''jrr_cloudmask'')]"

definition ex_file_type_matches :: "val \<Rightarrow> bool option" where
  \<comment> \<open>\<open>file_type_matches\<close> of a handler whose file type is \<open>jrr_x\<close>\<close>
  "ex_file_type_matches ds_ftype = (if ds_ftype = VStr ''jrr_x'' then Some True else None)"

definition ex_scalar :: "real \<Rightarrow> data_array" where
  "ex_scalar x = \<lparr>shape = [], payload_of = FloatArr [Some x], attrs = [], coords = []\<rparr>"

definition ex_lst :: handler where
  "ex_lst = \<lparr>nc =
      [(''VLST'', \<lparr>shape = [1, 3], payload_of = FloatArr [Some 1, None, Some 3], attrs = [], coords = []\<rparr>),
       (''LST_ScaleFact'', ex_scalar 2),
       (''LST_Offset'', ex_scalar 10),
       (''QC'', \<lparr>shape = [1, 3], payload_of = ByteArr [0, 1, 2], attrs = [], coords = []\<rparr>)],
      platform_shortname = ''npp'', file_type = ''jrr_lst''\<rparr>"

definition ex_flags :: "8 word list \<Rightarrow> data_array" where
  "ex_flags ws = \<lparr>shape = [1, 2], payload_of = ByteArr ws, attrs = [], coords = []\<rparr>"

definition ex_ndvi :: data_array where
  "ex_ndvi = \<lparr>shape = [2, 4],
      payload_of = FloatArr [Some (1/10), Some (2/10), Some (3/10), Some (4/10),
                             Some (5/10), None, Some (7/10), Some (8/10)],
      attrs = [], coords = []\<rparr>"

definition ex_sr :: sr_handler where
  "ex_sr = \<lparr>nc =
      [(''NDVI'', ex_ndvi),
       (''QF1 Surface Reflectance'', ex_flags [0b00000010, 0b00000110]),
       (''QF2 Surface Reflectance'', ex_flags [0b00000011, 0b00000011]),
       (''QF7 Surface Reflectance'', ex_flags [0, 0])],
      platform_shortname = ''npp'', file_type = ''jrr_surfref'', filter_veg = True\<rparr>"

section \<open>Theorems\<close>

subsection \<open>Platform names\<close>

lemma upper_simps:
  "upper [] = []"
  "upper (c # cs) = upper_char c # upper cs"
  by (simp_all add: upper_def)

text \<open>
  Claim C9. The short names NPP, JPSS-1, J01, JPSS-2 and J02, compared after
  upper-casing, give Suomi-NPP, NOAA-20, NOAA-20, NOAA-21 and NOAA-21; every other short
  name fails with the dictionary's own \<open>KeyError\<close>, and with no other error.
\<close>

theorem platform_name_lookup:
  "(upper s = ''NPP'' \<longrightarrow> platform_name s = Inr ''Suomi-NPP'') \<and>
   (upper s = ''JPSS-1'' \<longrightarrow> platform_name s = Inr ''NOAA-20'') \<and>
   (upper s = ''J01'' \<longrightarrow> platform_name s = Inr ''NOAA-20'') \<and>
   (upper s = ''JPSS-2'' \<longrightarrow> platform_name s = Inr ''NOAA-21'') \<and>
   (upper s = ''J02'' \<longrightarrow> platform_name s = Inr ''NOAA-21'') \<and>
   (upper s \<notin> {''NPP'', ''JPSS-1'', ''J01'', ''JPSS-2'', ''J02''} \<longrightarrow>
      platform_name s = Inl KeyError)"
  by (simp add: platform_name_def platform_dict_def)

theorem platform_name_lookup_witness:
  "platform_name ''npp'' = Inr ''Suomi-NPP'' \<and>
   platform_name ''JPSS-1'' = Inr ''NOAA-20'' \<and>
   platform_name ''j01'' = Inr ''NOAA-20'' \<and>
   platform_name ''Jpss-2'' = Inr ''NOAA-21'' \<and>
   platform_name ''J02'' = Inr ''NOAA-21'' \<and>
   platform_name ''J03'' = Inl KeyError"
  using platform_name_lookup [of "''npp''"] platform_name_lookup [of "''JPSS-1''"]
    platform_name_lookup [of "''j01''"] platform_name_lookup [of "''Jpss-2''"]
    platform_name_lookup [of "''J02''"] platform_name_lookup [of "''J03''"]
  by (simp add: upper_simps upper_char_def lower_letters_def upper_letters_def)

subsection \<open>Valid-range masking\<close>

lemma where_in_range_list:
  "map2 (\<lambda>x c. if c then x else None) xs
     (map2 (\<and>) (map (\<lambda>x. case x of None \<Rightarrow> False | Some v \<Rightarrow> lo \<le> v) xs)
                (map (\<lambda>x. case x of None \<Rightarrow> False | Some v \<Rightarrow> v \<le> hi) xs)) =
   map (\<lambda>x. case x of None \<Rightarrow> None | Some v \<Rightarrow> if lo \<le> v \<and> v \<le> (hi::real) then Some v else None) xs"
  by (induction xs) (auto split: option.splits)

lemma in_range_where_nums:
  "in_range_where a (Inr (VNum lo)) (Inr (VNum hi)) =
     Inr (a\<lparr>payload_of := FloatArr
       (map (\<lambda>x. case x of None \<Rightarrow> None | Some v \<Rightarrow> if lo \<le> v \<and> v \<le> hi then Some v else None)
          (as_float (payload_of a)))\<rparr>)"
  by (simp add: in_range_where_def bind_err_def bound_of_def where_cond_def
      scalar_le_arr_def arr_le_scalar_def where_in_range_list)

lemma mask_invalid_fields:
  assumes "mask_invalid a info = Inr ma"
  shows "attrs ma = attrs a" "shape ma = shape a" "coords ma = coords a"
  using assms
  by (auto simp: mask_invalid_def in_range_where_def bind_err_def Let_def
      split: if_splits sum.splits)

text \<open>
  Claim C8. With the valid range \<open>[lo, hi]\<close> taken from the dataset info's
  \<open>valid_range\<close> if it has one, else from the array's \<open>valid_range\<close> attribute, else from
  its \<open>valid_min\<close> and \<open>valid_max\<close> attributes, \<open>_mask_invalid\<close> returns the array with
  every element outside \<open>[lo, hi]\<close> masked and every element inside it (and every element
  already masked) as it was; with no valid range anywhere it returns the array itself.
\<close>

theorem mask_invalid_valid_range:
  "(let masked = a\<lparr>payload_of := FloatArr
       (map (\<lambda>x. case x of None \<Rightarrow> None | Some v \<Rightarrow> if lo \<le> v \<and> v \<le> hi then Some v else None)
          (as_float (payload_of a)))\<rparr>
    in
     (map_of ds_info ''valid_range'' = Some (VNums [lo, hi]) \<longrightarrow>
        mask_invalid a ds_info = Inr masked) \<and>
     (map_of ds_info ''valid_range'' = None \<and>
      map_of (attrs a) ''valid_range'' = Some (VNums [lo, hi]) \<longrightarrow>
        mask_invalid a ds_info = Inr masked) \<and>
     (map_of ds_info ''valid_range'' = None \<and> map_of (attrs a) ''valid_range'' = None \<and>
      map_of (attrs a) ''valid_min'' = Some (VNum lo) \<and>
      map_of (attrs a) ''valid_max'' = Some (VNum hi) \<longrightarrow>
        mask_invalid a ds_info = Inr masked) \<and>
     (map_of ds_info ''valid_range'' = None \<and> map_of (attrs a) ''valid_range'' = None \<and>
      map_of (attrs a) ''valid_min'' = None \<longrightarrow>
        mask_invalid a ds_info = Inr a))"
  by (simp add: Let_def mask_invalid_def dict_get_def dict_item_def bind_err_def val_item_def
      in_range_where_nums)

theorem mask_invalid_valid_range_witness:
  "mask_invalid ex_plain [(''valid_range'', VNums [0, 5])] =
     Inr (ex_plain\<lparr>payload_of := FloatArr [None, Some 0, None, None]\<rparr>) \<and>
   mask_invalid (ex_plain\<lparr>attrs := [(''valid_range'', VNums [-1, 0]), (''valid_min'', VNum 5)]\<rparr>) [] =
     Inr (ex_plain\<lparr>attrs := [(''valid_range'', VNums [-1, 0]), (''valid_min'', VNum 5)],
                    payload_of := FloatArr [Some (-1), Some 0, None, None]\<rparr>) \<and>
   mask_invalid ex_refl [] = Inr (ex_refl\<lparr>payload_of := FloatArr [Some (1/2), None, None]\<rparr>) \<and>
   mask_invalid ex_plain [] = Inr ex_plain"
  using mask_invalid_valid_range [of 0 5 ex_plain "[(''valid_range'', VNums [0, 5])]"]
    mask_invalid_valid_range [of "-1" 0
      "ex_plain\<lparr>attrs := [(''valid_range'', VNums [-1, 0]), (''valid_min'', VNum 5)]\<rparr>" "[]"]
    mask_invalid_valid_range [of 0 1 ex_refl "[]"]
    mask_invalid_valid_range [of 0 0 ex_plain "[]"]
  by (simp add: ex_plain_def ex_refl_def as_float_def)

subsection \<open>Units and coordinates of a loaded dataset\<close>

lemma decode_flag_meanings_other:
  "k \<noteq> ''flag_meanings'' \<Longrightarrow> map_of (attrs (decode_flag_meanings a)) k = map_of (attrs a) k"
  by (simp add: decode_flag_meanings_def update_conv' split: val.splits)

lemma decode_flag_meanings_fields:
  "shape (decode_flag_meanings a) = shape a"
  "payload_of (decode_flag_meanings a) = payload_of a"
  "coords (decode_flag_meanings a) = coords a"
  by (simp_all add: decode_flag_meanings_def split: val.splits)

lemma set_attr_fields:
  "shape (set_attr k v a) = shape a"
  "payload_of (set_attr k v a) = payload_of a"
  "coords (set_attr k v a) = coords a"
  "map_of (attrs (set_attr k v a)) k' = (if k' = k then Some v else map_of (attrs a) k')"
  by (simp_all add: set_attr_def update_conv')

lemma set_standard_name_fields:
  "shape (set_standard_name info a) = shape a"
  "payload_of (set_standard_name info a) = payload_of a"
  "coords (set_standard_name info a) = coords a"
  "k \<noteq> ''standard_name'' \<Longrightarrow> map_of (attrs (set_standard_name info a)) k = map_of (attrs a) k"
  by (simp_all add: set_standard_name_def update_conv' split: option.splits)

lemma apply_units_fields:
  "shape (apply_units u a) = shape a"
  "coords (apply_units u a) = coords a"
  "map_of (attrs (apply_units u a)) ''units'' = Some u"
  by (simp_all add: apply_units_def Let_def update_conv')

lemma drop_lonlat_coords_fields:
  "shape (drop_lonlat_coords a) = shape a"
  "payload_of (drop_lonlat_coords a) = payload_of a"
  "attrs (drop_lonlat_coords a) = attrs a"
  by (simp_all add: drop_lonlat_coords_def)

text \<open>
  \<open>get_dataset\<close> returns exactly when the dataset info names a variable of the file, the
  masking and the platform lookup succeed and the array has two dimensions or more; it
  then returns the masked array after the metadata steps, in the source's order.
\<close>

lemma get_dataset_run:
  assumes "dict_item info ''file_key'' = Inr file_key"
    and "nc_item (nc self) file_key = Inr a"
    and "m a info = Inr ma"
    and "platform_name (platform_shortname self) = Inr pname"
    and "2 \<le> length (shape ma)"
  shows "get_dataset m self info =
    Inr (drop_lonlat_coords
          (set_attr ''rows_per_scan'' (VNum (real (if shape ma ! 1 = M_COLS then 16 else 32 :: nat)))
            (set_attr ''sensor'' (VStr ''viirs'')
              (set_attr ''platform_name'' (VStr pname)
                (decode_flag_meanings
                  (set_standard_name info
                    (apply_units (resolve_units info ma) ma)))))))"
  using assms
  by (simp add: get_dataset_def bind_err_def Let_def rows_per_scans_def
      set_attr_fields decode_flag_meanings_fields set_standard_name_fields apply_units_fields)

lemma get_dataset_lonlat_coords:
  assumes "get_dataset m self info = Inr r"
    and "dict_get (attrs r) ''standard_name'' VNone \<in> {VStr ''longitude'', VStr ''latitude''}"
  shows "coords r = []"
  using assms
  by (auto simp: get_dataset_def bind_err_def Let_def drop_lonlat_coords_def
      split: sum.splits if_splits)

lemma ex_refl_masked:
  "map_of info ''valid_range'' = None \<Longrightarrow>
   mask_invalid ex_refl info = Inr (ex_refl\<lparr>payload_of := FloatArr [Some (1/2), None, None]\<rparr>)"
  by (simp add: mask_invalid_def ex_refl_def dict_get_def dict_item_def bind_err_def
      in_range_where_nums as_float_def)

lemma platform_name_j01: "platform_name ''j01'' = Inr ''NOAA-20''"
  by (simp add: platform_name_def platform_dict_def upper_def upper_char_def
      lower_letters_def upper_letters_def)

text \<open>
  Claim C7. Whenever \<open>get_dataset\<close> of the base handler returns: if the resolved units
  (the configured \<open>units\<close>, else the file's \<open>units\<close> attribute) are missing or
  \<open>unitless\<close>, the returned array's \<open>units\<close> attribute is \<open>1\<close>; if the configured units
  are \<open>%\<close> and the file's \<open>units\<close> attribute is \<open>1\<close> or \<open>unitless\<close>, the returned
  \<open>units\<close> attribute is \<open>%\<close> and every value of the (masked) data is multiplied by 100.
\<close>

theorem get_dataset_units:
  assumes "dict_item info ''file_key'' = Inr file_key"
    and "nc_item (nc self) file_key = Inr a"
    and "mask_invalid a info = Inr ma"
    and "platform_name (platform_shortname self) = Inr pname"
    and "2 \<le> length (shape a)"
  shows "\<exists>r. jrr_get_dataset self info = Inr r \<and>
    (let file_units = dict_get (attrs a) ''units'' VNone;
         units = dict_get info ''units'' file_units
     in (units = VNone \<or> units = VStr ''unitless'' \<longrightarrow>
           map_of (attrs r) ''units'' = Some (VStr ''1'')) \<and>
        (map_of info ''units'' = Some (VStr ''%'') \<and>
         (file_units = VStr ''1'' \<or> file_units = VStr ''unitless'') \<longrightarrow>
           map_of (attrs r) ''units'' = Some (VStr ''%'') \<and>
           payload_of r = FloatArr (map (map_option (\<lambda>x. x * 100)) (as_float (payload_of ma)))))"
proof -
  note ma = mask_invalid_fields [OF assms(3)]
  from assms(5) ma have sh: "2 \<le> length (shape ma)" by simp
  note run = get_dataset_run [where m = mask_invalid, OF assms(1,2,3,4) sh]
  have units: "map_of (attrs r) ''units'' = Some (resolve_units info ma)"
    if "jrr_get_dataset self info = Inr r" for r
    using that run
    by (auto simp: jrr_get_dataset_def drop_lonlat_coords_fields set_attr_fields
        decode_flag_meanings_other set_standard_name_fields apply_units_fields)
  have pay: "payload_of r = payload_of (apply_units (resolve_units info ma) ma)"
    if "jrr_get_dataset self info = Inr r" for r
    using that run
    by (auto simp: jrr_get_dataset_def drop_lonlat_coords_fields set_attr_fields
        decode_flag_meanings_fields set_standard_name_fields)
  from run obtain r where r: "jrr_get_dataset self info = Inr r"
    by (simp add: jrr_get_dataset_def)
  have "map_of (attrs r) ''units'' = Some (VStr ''1'')"
    if "dict_get info ''units'' (dict_get (attrs a) ''units'' VNone) = VNone \<or>
        dict_get info ''units'' (dict_get (attrs a) ''units'' VNone) = VStr ''unitless''"
    using that units [OF r] ma by (auto simp: resolve_units_def Let_def)
  moreover have "map_of (attrs r) ''units'' = Some (VStr ''%'') \<and>
      payload_of r = FloatArr (map (map_option (\<lambda>x. x * 100)) (as_float (payload_of ma)))"
    if "map_of info ''units'' = Some (VStr ''%'')"
      and "dict_get (attrs a) ''units'' VNone = VStr ''1'' \<or>
           dict_get (attrs a) ''units'' VNone = VStr ''unitless''"
  proof -
    from that(1) have ru: "resolve_units info ma = VStr ''%''"
      by (simp add: resolve_units_def dict_get_def)
    from that(2) ma ru show ?thesis
      using units [OF r] pay [OF r]
      by (auto simp: apply_units_def imul_scalar_def Let_def)
  qed
  ultimately show ?thesis using r by (auto simp: Let_def)
qed

theorem get_dataset_units_witness:
  "(\<exists>r. jrr_get_dataset ex_handler [(''file_key'', VStr ''refl''), (''units'', VStr ''%'')] = Inr r \<and>
      map_of (attrs r) ''units'' = Some (VStr ''%'') \<and>
      payload_of r = FloatArr [Some 50, None, None]) \<and>
   (\<exists>r. jrr_get_dataset ex_handler [(''file_key'', VStr ''refl'')] = Inr r \<and>
      map_of (attrs r) ''units'' = Some (VStr ''1''))"
  using get_dataset_units [of "[(''file_key'', VStr ''refl''), (''units'', VStr ''%'')]" "VStr ''refl''"
      ex_handler ex_refl "ex_refl\<lparr>payload_of := FloatArr [Some (1/2), None, None]\<rparr>" "''NOAA-20''"]
    get_dataset_units [of "[(''file_key'', VStr ''refl'')]" "VStr ''refl''"
      ex_handler ex_refl "ex_refl\<lparr>payload_of := FloatArr [Some (1/2), None, None]\<rparr>" "''NOAA-20''"]
  by (simp add: ex_refl_masked platform_name_j01 dict_item_def dict_get_def nc_item_def
      ex_handler_def Let_def as_float_def)
    (simp add: ex_refl_def)

subsection \<open>Available datasets\<close>

lemma lower_refl: "lower ''refl'' = ''refl''"
  by (simp add: lower_def lower_char_def lower_letters_def upper_letters_def)

lemma lower_Longitude: "lower ''Longitude'' = ''longitude''"
  by (simp add: lower_def lower_char_def lower_letters_def upper_letters_def)

lemma dyn_refl:
  "dynamic_variable ''jrr_x'' h (''refl'', ex_refl) =
     (if VStr ''refl'' \<in> h then [] else
     [(True, [(''file_key'', VStr ''refl''), (''file_type'', VStr ''jrr_x''), (''name'', VStr ''refl''),
        (''resolution'', VNum 375),
        (''coordinates'', VStrs [''longitude_i_jrr_x'', ''latitude_i_jrr_x''])])])"
  by (simp add: dynamic_variable_def Let_def lower_refl ex_refl_def M_COLS_def)

lemma dyn_lon:
  "dynamic_variable ''jrr_x'' h (''Longitude'', ex_lon) =
     [(True, [(''file_key'', VStr ''Longitude''), (''file_type'', VStr ''jrr_x''),
        (''name'', VStr ''longitude_i_jrr_x''), (''resolution'', VNum 375),
        (''standard_name'', VStr ''longitude''), (''units'', VStr ''degrees_east'')])]"
  by (simp add: dynamic_variable_def Let_def lower_Longitude ex_lon_def M_COLS_def)

text \<open>
  Claim C4, at a configured dataset of another file type that no handler has decided
  (\<open>is_avail\<close> is \<open>None\<close>, \<open>file_type_matches\<close> gives \<open>None\<close>): after
  \<open>yield None, ds_info\<close> the loop body does not \<open>continue\<close>, so the dataset is yielded
  a second time, with \<open>file_key in self.nc\<close> as its availability. The third result is
  the file's own variable, found dynamically.
\<close>

theorem available_datasets_other_file_type:
  "available_datasets ex_file_type_matches ex_handler [(None, ex_configured)] =
     ([(None, ex_configured), (Some False, ex_configured),
       (Some True, [(''file_key'', VStr ''refl''), (''file_type'', VStr ''jrr_x''), (''name'', VStr ''refl''),
        (''resolution'', VNum 375),
        (''coordinates'', VStrs [''longitude_i_jrr_x'', ''latitude_i_jrr_x''])])], None)"
  by (simp add: available_datasets_def configured_dataset_def dynamic_variables_from_file_def
      ex_handler_def dyn_refl ex_configured_def ex_file_type_matches_def dict_item_def dict_get_def
      bind_err_def nc_contains_def Let_def)

text \<open>
  The two branches of the loop over the configured datasets: a dataset that an earlier
  handler has decided is yielded once, unchanged; an undecided dataset of another file
  type is yielded twice.
\<close>

lemma configured_dataset_decided:
  "dict_item ds_info ''name'' = Inr name \<Longrightarrow>
   \<exists>file_key. configured_dataset ftm self (Some b, ds_info) = Inr (file_key, [(Some b, ds_info)])"
  by (simp add: configured_dataset_def bind_err_def Let_def)

lemma configured_dataset_other_type:
  "dict_item ds_info ''name'' = Inr name \<Longrightarrow> dict_item ds_info ''file_type'' = Inr ft \<Longrightarrow>
   ftm ft = None \<Longrightarrow>
   configured_dataset ftm self (None, ds_info) =
     Inr (dict_get ds_info ''file_key'' name,
          [(None, ds_info), (Some (nc_contains (nc self) (dict_get ds_info ''file_key'' name)), ds_info)])"
  by (simp add: configured_dataset_def bind_err_def Let_def)

lemma dynamic_variable_yield:
  assumes "(avail, ds_info) \<in> set (dynamic_variable ftype handled (var_name, data_arr))"
  shows "avail \<and> length (shape data_arr) = 2 \<and>
    (VStr var_name \<notin> handled \<or> contains ''longitude'' (lower var_name) \<or> contains ''latitude'' (lower var_name)) \<and>
    map_of ds_info ''file_key'' = Some (VStr var_name) \<and>
    map_of ds_info ''coordinates'' =
      (if contains ''longitude'' (lower var_name) \<or> contains ''latitude'' (lower var_name) then None
       else Some (if shape data_arr ! 1 = M_COLS
                  then VStrs [''longitude_'' @ ftype, ''latitude_'' @ ftype]
                  else VStrs [''longitude_i_'' @ ftype, ''latitude_i_'' @ ftype]))"
  using assms
  by (auto simp: dynamic_variable_def Let_def split: if_splits)

lemma dynamic_variable_yielded:
  assumes "length (shape data_arr) = 2"
    and "VStr var_name \<notin> handled \<or> contains ''longitude'' (lower var_name) \<or> contains ''latitude'' (lower var_name)"
  shows "\<exists>ds_info. dynamic_variable ftype handled (var_name, data_arr) = [(True, ds_info)]"
  using assms
  by (auto simp: dynamic_variable_def Let_def)

text \<open>
  Claim C10. \<open>get_dataset\<close> returns no coordinates on an array whose \<open>standard_name\<close>
  is \<open>longitude\<close> or \<open>latitude\<close>. Every entry that \<open>_dynamic_variables_from_file\<close>
  yields is available (\<open>True\<close>) and describes a two-dimensional variable of the file;
  its metadata has no \<open>coordinates\<close> entry when the variable's name contains
  \<open>longitude\<close> or \<open>latitude\<close>, and otherwise names the M-band coordinates for 3200
  columns and the I-band coordinates for any other width. Every two-dimensional variable
  that is a longitude or latitude, or that the configuration has not handled, is yielded;
  and \<open>available_datasets\<close> ends with these entries whenever the configured part raises
  nothing.
\<close>

theorem lonlat_no_coordinate_linkage:
  "(get_dataset m self info = Inr r \<and>
    dict_get (attrs r) ''standard_name'' VNone \<in> {VStr ''longitude'', VStr ''latitude''} \<longrightarrow>
      coords r = []) \<and>
   (\<forall>(avail, ds_info) \<in> set (dynamic_variables_from_file self handled).
      avail \<and>
      (\<exists>(var_name, data_arr) \<in> set (nc self).
         length (shape data_arr) = 2 \<and>
         map_of ds_info ''file_key'' = Some (VStr var_name) \<and>
         map_of ds_info ''coordinates'' =
           (if contains ''longitude'' (lower var_name) \<or> contains ''latitude'' (lower var_name)
            then None
            else Some (if shape data_arr ! 1 = M_COLS
                       then VStrs [''longitude_'' @ file_type self, ''latitude_'' @ file_type self]
                       else VStrs [''longitude_i_'' @ file_type self, ''latitude_i_'' @ file_type self])))) \<and>
   (\<forall>(var_name, data_arr) \<in> set (nc self).
      length (shape data_arr) = 2 \<and>
      (VStr var_name \<notin> handled \<or>
       contains ''longitude'' (lower var_name) \<or> contains ''latitude'' (lower var_name)) \<longrightarrow>
      (\<exists>ds_info. (True, ds_info) \<in> set (dynamic_variables_from_file self handled) \<and>
         map_of ds_info ''file_key'' = Some (VStr var_name))) \<and>
   (\<forall>yielded handled_var_names.
      configured_loop ftm self configured {} = (yielded, Inr handled_var_names) \<longrightarrow>
      available_datasets ftm self configured =
        (yielded @ map (\<lambda>(avail, ds_info). (Some avail, ds_info))
                     (dynamic_variables_from_file self handled_var_names), None))"
proof (intro conjI)
  show "get_dataset m self info = Inr r \<and>
    dict_get (attrs r) ''standard_name'' VNone \<in> {VStr ''longitude'', VStr ''latitude''} \<longrightarrow>
      coords r = []"
    using get_dataset_lonlat_coords by blast
next
  show "\<forall>(avail, ds_info) \<in> set (dynamic_variables_from_file self handled).
      avail \<and>
      (\<exists>(var_name, data_arr) \<in> set (nc self).
         length (shape data_arr) = 2 \<and>
         map_of ds_info ''file_key'' = Some (VStr var_name) \<and>
         map_of ds_info ''coordinates'' =
           (if contains ''longitude'' (lower var_name) \<or> contains ''latitude'' (lower var_name)
            then None
            else Some (if shape data_arr ! 1 = M_COLS
                       then VStrs [''longitude_'' @ file_type self, ''latitude_'' @ file_type self]
                       else VStrs [''longitude_i_'' @ file_type self, ''latitude_i_'' @ file_type self])))"
  proof (clarify)
    fix avail ds_info
    assume "(avail, ds_info) \<in> set (dynamic_variables_from_file self handled)"
    then obtain var_name data_arr where e: "(var_name, data_arr) \<in> set (nc self)"
      and y: "(avail, ds_info) \<in> set (dynamic_variable (file_type self) handled (var_name, data_arr))"
      by (auto simp: dynamic_variables_from_file_def)
    from dynamic_variable_yield [OF y] e
    show "avail \<and>
      (\<exists>(var_name, data_arr) \<in> set (nc self).
         length (shape data_arr) = 2 \<and>
         map_of ds_info ''file_key'' = Some (VStr var_name) \<and>
         map_of ds_info ''coordinates'' =
           (if contains ''longitude'' (lower var_name) \<or> contains ''latitude'' (lower var_name)
            then None
            else Some (if shape data_arr ! 1 = M_COLS
                       then VStrs [''longitude_'' @ file_type self, ''latitude_'' @ file_type self]
                       else VStrs [''longitude_i_'' @ file_type self, ''latitude_i_'' @ file_type self])))"
      by blast
  qed
next
  show "\<forall>(var_name, data_arr) \<in> set (nc self).
      length (shape data_arr) = 2 \<and>
      (VStr var_name \<notin> handled \<or>
       contains ''longitude'' (lower var_name) \<or> contains ''latitude'' (lower var_name)) \<longrightarrow>
      (\<exists>ds_info. (True, ds_info) \<in> set (dynamic_variables_from_file self handled) \<and>
         map_of ds_info ''file_key'' = Some (VStr var_name))"
  proof (clarify)
    fix var_name data_arr
    assume e: "(var_name, data_arr) \<in> set (nc self)" and two: "length (shape data_arr) = 2"
      and h: "VStr var_name \<notin> handled \<or>
       contains ''longitude'' (lower var_name) \<or> contains ''latitude'' (lower var_name)"
    from dynamic_variable_yielded [OF two h] obtain ds_info
      where d: "dynamic_variable (file_type self) handled (var_name, data_arr) = [(True, ds_info)]"
      by blast
    then have "(True, ds_info) \<in> set (dynamic_variable (file_type self) handled (var_name, data_arr))"
      by simp
    with e have "(True, ds_info) \<in> set (dynamic_variables_from_file self handled)"
      by (auto simp: dynamic_variables_from_file_def)
    moreover from dynamic_variable_yield [of True ds_info "file_type self" handled var_name data_arr] d
    have "map_of ds_info ''file_key'' = Some (VStr var_name)" by simp
    ultimately show "\<exists>ds_info. (True, ds_info) \<in> set (dynamic_variables_from_file self handled) \<and>
         map_of ds_info ''file_key'' = Some (VStr var_name)" by blast
  qed
next
  show "\<forall>yielded handled_var_names.
      configured_loop ftm self configured {} = (yielded, Inr handled_var_names) \<longrightarrow>
      available_datasets ftm self configured =
        (yielded @ map (\<lambda>(avail, ds_info). (Some avail, ds_info))
                     (dynamic_variables_from_file self handled_var_names), None)"
    by (simp add: available_datasets_def)
qed

lemma ex_lon_masked: "mask_invalid ex_lon [(''file_key'', VStr ''Longitude'')] = Inr ex_lon"
  by (simp add: mask_invalid_def ex_lon_def dict_get_def)

lemma dyn_ex_geo:
  "dynamic_variables_from_file ex_geo {} =
    [(True, [(''file_key'', VStr ''Longitude''), (''file_type'', VStr ''jrr_x''),
        (''name'', VStr ''longitude_i_jrr_x''), (''resolution'', VNum 375),
        (''standard_name'', VStr ''longitude''), (''units'', VStr ''degrees_east'')]),
     (True, [(''file_key'', VStr ''refl''), (''file_type'', VStr ''jrr_x''), (''name'', VStr ''refl''),
        (''resolution'', VNum 375),
        (''coordinates'', VStrs [''longitude_i_jrr_x'', ''latitude_i_jrr_x''])])]"
  by (simp add: dynamic_variables_from_file_def ex_geo_def dyn_lon dyn_refl)

theorem lonlat_no_coordinate_linkage_witness:
  "(\<exists>r. jrr_get_dataset ex_geo [(''file_key'', VStr ''Longitude'')] = Inr r \<and>
        map_of (attrs r) ''standard_name'' = Some (VStr ''longitude'') \<and> coords r = []) \<and>
   (\<exists>ds_info. (True, ds_info) \<in> set (dynamic_variables_from_file ex_geo {}) \<and>
        map_of ds_info ''file_key'' = Some (VStr ''Longitude'') \<and>
        map_of ds_info ''coordinates'' = None) \<and>
   (\<exists>ds_info. (True, ds_info) \<in> set (dynamic_variables_from_file ex_geo {}) \<and>
        map_of ds_info ''file_key'' = Some (VStr ''refl'') \<and>
        map_of ds_info ''coordinates'' = Some (VStrs [''longitude_i_jrr_x'', ''latitude_i_jrr_x'']))"
proof -
  let ?info = "[(''file_key'', VStr ''Longitude'')]"
  define r where "r = drop_lonlat_coords
          (set_attr ''rows_per_scan'' (VNum (real (if shape ex_lon ! 1 = M_COLS then 16 else 32 :: nat)))
            (set_attr ''sensor'' (VStr ''viirs'')
              (set_attr ''platform_name'' (VStr ''NOAA-20'')
                (decode_flag_meanings
                  (set_standard_name ?info
                    (apply_units (resolve_units ?info ex_lon) ex_lon))))))"
  have run: "get_dataset mask_invalid ex_geo ?info = Inr r"
    unfolding r_def
    by (rule get_dataset_run [where file_key = "VStr ''Longitude''" and a = ex_lon])
      (simp_all add: dict_item_def nc_item_def ex_geo_def ex_lon_masked platform_name_j01,
        simp add: ex_lon_def)
  have sn: "map_of (attrs r) ''standard_name'' = Some (VStr ''longitude'')"
    by (simp add: r_def drop_lonlat_coords_fields set_attr_fields decode_flag_meanings_other
        set_standard_name_def apply_units_def Let_def update_conv' ex_lon_def)
  note inst = lonlat_no_coordinate_linkage [of mask_invalid ex_geo ?info r "{}" "\<lambda>_. None" "[]"]
  from inst run sn have "coords r = []" by (simp add: dict_get_def)
  with run sn have 1: "\<exists>r. jrr_get_dataset ex_geo ?info = Inr r \<and>
        map_of (attrs r) ''standard_name'' = Some (VStr ''longitude'') \<and> coords r = []"
    by (simp add: jrr_get_dataset_def)
  have 2: "\<exists>ds_info. (True, ds_info) \<in> set (dynamic_variables_from_file ex_geo {}) \<and>
        map_of ds_info ''file_key'' = Some (VStr ''Longitude'') \<and>
        map_of ds_info ''coordinates'' = None"
    by (rule exI [of _ "[(''file_key'', VStr ''Longitude''), (''file_type'', VStr ''jrr_x''),
        (''name'', VStr ''longitude_i_jrr_x''), (''resolution'', VNum 375),
        (''standard_name'', VStr ''longitude''), (''units'', VStr ''degrees_east'')]"])
      (simp add: dyn_ex_geo)
  have 3: "\<exists>ds_info. (True, ds_info) \<in> set (dynamic_variables_from_file ex_geo {}) \<and>
        map_of ds_info ''file_key'' = Some (VStr ''refl'') \<and>
        map_of ds_info ''coordinates'' = Some (VStrs [''longitude_i_jrr_x'', ''latitude_i_jrr_x''])"
    by (rule exI [of _ "[(''file_key'', VStr ''refl''), (''file_type'', VStr ''jrr_x''),
        (''name'', VStr ''refl''), (''resolution'', VNum 375),
        (''coordinates'', VStrs [''longitude_i_jrr_x'', ''latitude_i_jrr_x''])]"])
      (simp add: dyn_ex_geo)
  from 1 2 3 show ?thesis by blast
qed

subsection \<open>Manual scaling of land surface temperature files\<close>

lemma manual_scalings_companions:
  "map_of manual_scalings k = Some names \<Longrightarrow>
   map_of manual_scalings (fst names) = None \<and> map_of manual_scalings (snd names) = None"
  by (auto simp: manual_scalings_def split: if_splits)

lemma manual_scalings_dom:
  "map_of manual_scalings k \<noteq> None \<longleftrightarrow>
   k \<in> {''VLST'', ''emis_m15'', ''emis_m16'', ''emis_bbe'', ''Satellite_Azimuth_Angle''}"
  by (auto simp: manual_scalings_def split: if_splits)

lemma nc_item_VStr:
  "nc_item vars (VStr k) = (case map_of vars k of None \<Rightarrow> Inl KeyError | Some a \<Rightarrow> Inr a)"
  by (simp add: nc_item_def)

lemma scale_loop_invariant:
  assumes "distinct ks"
    and "\<forall>k. k \<in> set ks \<or> map_of manual_scalings k = None \<longrightarrow> map_of vars k = map_of vars0 k"
    and "\<forall>k\<in>set ks. \<forall>names. map_of manual_scalings k = Some names \<longrightarrow>
           (\<exists>d s off d'. map_of vars0 k = Some d \<and> map_of vars0 (fst names) = Some s \<and>
              map_of vars0 (snd names) = Some off \<and> rescale mul add d s off = Inr d')"
    and "map fst vars = map fst vars0"
  shows "\<exists>vars'. scale_loop mul add ks vars = Inr vars' \<and> map fst vars' = map fst vars0 \<and>
    (\<forall>k. (k \<in> set ks \<longrightarrow> (\<forall>names. map_of manual_scalings k = Some names \<longrightarrow>
             (\<exists>d s off d'. map_of vars0 k = Some d \<and> map_of vars0 (fst names) = Some s \<and>
                map_of vars0 (snd names) = Some off \<and> rescale mul add d s off = Inr d' \<and>
                map_of vars' k = Some d'))) \<and>
         (k \<notin> set ks \<or> map_of manual_scalings k = None \<longrightarrow> map_of vars' k = map_of vars k))"
  using assms
proof (induction ks arbitrary: vars)
  case Nil
  then show ?case by simp
next
  case (Cons k rest)
  show ?case
  proof (cases "map_of manual_scalings k")
    case None
    from Cons.prems have pre: "distinct rest"
      "\<forall>k. k \<in> set rest \<or> map_of manual_scalings k = None \<longrightarrow> map_of vars k = map_of vars0 k"
      "\<forall>k\<in>set rest. \<forall>names. map_of manual_scalings k = Some names \<longrightarrow>
           (\<exists>d s off d'. map_of vars0 k = Some d \<and> map_of vars0 (fst names) = Some s \<and>
              map_of vars0 (snd names) = Some off \<and> rescale mul add d s off = Inr d')"
      "map fst vars = map fst vars0"
      by auto
    from Cons.IH [OF pre] obtain vars' where
      v: "scale_loop mul add rest vars = Inr vars'" "map fst vars' = map fst vars0"
      and r: "\<forall>k. (k \<in> set rest \<longrightarrow> (\<forall>names. map_of manual_scalings k = Some names \<longrightarrow>
             (\<exists>d s off d'. map_of vars0 k = Some d \<and> map_of vars0 (fst names) = Some s \<and>
                map_of vars0 (snd names) = Some off \<and> rescale mul add d s off = Inr d' \<and>
                map_of vars' k = Some d'))) \<and>
         (k \<notin> set rest \<or> map_of manual_scalings k = None \<longrightarrow> map_of vars' k = map_of vars k)"
      by blast
    have "scale_loop mul add (k # rest) vars = Inr vars'"
      using None v by simp
    moreover from r None have "\<forall>k'. (k' \<in> set (k # rest) \<longrightarrow> (\<forall>names. map_of manual_scalings k' = Some names \<longrightarrow>
             (\<exists>d s off d'. map_of vars0 k' = Some d \<and> map_of vars0 (fst names) = Some s \<and>
                map_of vars0 (snd names) = Some off \<and> rescale mul add d s off = Inr d' \<and>
                map_of vars' k' = Some d'))) \<and>
         (k' \<notin> set (k # rest) \<or> map_of manual_scalings k' = None \<longrightarrow> map_of vars' k' = map_of vars k')"
      by auto
    ultimately show ?thesis using v(2) by blast
  next
    case (Some names)
    from Cons.prems(3) Some obtain d s off d' where
      d: "map_of vars0 k = Some d" "map_of vars0 (fst names) = Some s"
        "map_of vars0 (snd names) = Some off" "rescale mul add d s off = Inr d'"
      by fastforce
    from manual_scalings_companions [OF Some] Cons.prems(2) d
    have cur: "map_of vars k = Some d" "map_of vars (fst names) = Some s"
      "map_of vars (snd names) = Some off"
      by auto
    let ?vars2 = "AList.update k d' vars"
    have step: "scale_loop mul add (k # rest) vars = scale_loop mul add rest ?vars2"
      using Some cur d(4) by (simp add: nc_item_VStr bind_err_def)
    from cur(1) have "(k, d) \<in> set vars" by (rule map_of_SomeD)
    then have "k \<in> set (map fst vars)" by force
    then have "map fst ?vars2 = map fst vars" by (simp add: update_keys)
    with Cons.prems(4) have keys2: "map fst ?vars2 = map fst vars0" by simp
    from Cons.prems(1) have kn: "k \<notin> set rest" and dr: "distinct rest" by auto
    have inv2: "\<forall>k'. k' \<in> set rest \<or> map_of manual_scalings k' = None \<longrightarrow>
        map_of ?vars2 k' = map_of vars0 k'"
      using Cons.prems(2) kn Some by (auto simp: update_conv')
    have pre2: "\<forall>k\<in>set rest. \<forall>names. map_of manual_scalings k = Some names \<longrightarrow>
           (\<exists>d s off d'. map_of vars0 k = Some d \<and> map_of vars0 (fst names) = Some s \<and>
              map_of vars0 (snd names) = Some off \<and> rescale mul add d s off = Inr d')"
      using Cons.prems(3) by auto
    from Cons.IH [OF dr inv2 pre2 keys2] obtain vars' where
      v: "scale_loop mul add rest ?vars2 = Inr vars'" "map fst vars' = map fst vars0"
      and r: "\<forall>k. (k \<in> set rest \<longrightarrow> (\<forall>names. map_of manual_scalings k = Some names \<longrightarrow>
             (\<exists>d s off d'. map_of vars0 k = Some d \<and> map_of vars0 (fst names) = Some s \<and>
                map_of vars0 (snd names) = Some off \<and> rescale mul add d s off = Inr d' \<and>
                map_of vars' k = Some d'))) \<and>
         (k \<notin> set rest \<or> map_of manual_scalings k = None \<longrightarrow> map_of vars' k = map_of ?vars2 k)"
      by blast
    have here: "map_of vars' k = Some d'"
      using r kn by (simp add: update_conv')
    have "\<forall>k'. (k' \<in> set (k # rest) \<longrightarrow> (\<forall>names. map_of manual_scalings k' = Some names \<longrightarrow>
             (\<exists>d s off d'. map_of vars0 k' = Some d \<and> map_of vars0 (fst names) = Some s \<and>
                map_of vars0 (snd names) = Some off \<and> rescale mul add d s off = Inr d' \<and>
                map_of vars' k' = Some d'))) \<and>
         (k' \<notin> set (k # rest) \<or> map_of manual_scalings k' = None \<longrightarrow> map_of vars' k' = map_of vars k')"
    proof (intro allI conjI impI)
      fix k' names'
      assume "k' \<in> set (k # rest)" and m: "map_of manual_scalings k' = Some names'"
      then consider "k' = k" | "k' \<in> set rest" by auto
      then show "\<exists>d s off d'. map_of vars0 k' = Some d \<and> map_of vars0 (fst names') = Some s \<and>
                map_of vars0 (snd names') = Some off \<and> rescale mul add d s off = Inr d' \<and>
                map_of vars' k' = Some d'"
      proof cases
        case 1
        with m Some have "names' = names" by simp
        with 1 d here show ?thesis by blast
      next
        case 2
        with r m show ?thesis by blast
      qed
    next
      fix k'
      assume a: "k' \<notin> set (k # rest) \<or> map_of manual_scalings k' = None"
      with Some have "k' \<noteq> k" by auto
      with a r show "map_of vars' k' = map_of vars k'"
        by (auto simp: update_conv')
    qed
    with step v show ?thesis by auto
  qed
qed

lemma rescale_Inr:
  assumes "rescale mul add d s off = Inr d'"
  shows "\<exists>scaled new_data. mul (ndarray_of d) (ndarray_of s) = Inr scaled \<and>
     add scaled (ndarray_of off) = Inr new_data \<and> fst new_data = shape d \<and>
     d' = d\<lparr>payload_of := snd new_data\<rparr>"
  using assms
  by (auto simp: rescale_def bind_err_def split: sum.splits if_splits)

lemma manual_scalings_listed:
  "k \<in> {''VLST'', ''emis_m15'', ''emis_m16'', ''emis_bbe'', ''Satellite_Azimuth_Angle''} \<Longrightarrow>
   \<exists>names. map_of manual_scalings k = Some names"
  using manual_scalings_dom [of k] by simp

lemma manual_scalings_unlisted:
  "k \<notin> {''VLST'', ''emis_m15'', ''emis_m16'', ''emis_bbe'', ''Satellite_Azimuth_Angle''} \<Longrightarrow>
   map_of manual_scalings k = None"
  by (simp add: manual_scalings_def)

text \<open>
  Claim C5. On a file with distinct variable names, in which every variable listed in
  \<open>_manual_scalings\<close> that is present has its two companion variables and can be
  rescaled, \<open>_scale_data\<close> succeeds and keeps the variables and their order; each of
  \<open>VLST\<close>, \<open>emis_m15\<close>, \<open>emis_m16\<close>, \<open>emis_bbe\<close> and \<open>Satellite_Azimuth_Angle\<close> that
  is present gets the data \<open>data * scale_factor + add_offset\<close>, computed from its own
  data and from the companions named in \<open>_manual_scalings\<close> as they are in the file; each
  of them that is absent stays absent; every other variable is unchanged.
\<close>

theorem scale_data_rescales_listed_variables:
  assumes "distinct (map fst (nc self))"
    and "\<forall>name names d. map_of manual_scalings name = Some names \<and> map_of (nc self) name = Some d \<longrightarrow>
           (\<exists>s off d'. map_of (nc self) (fst names) = Some s \<and>
              map_of (nc self) (snd names) = Some off \<and> rescale mul add d s off = Inr d')"
  shows "\<exists>vars'. scale_data mul add self = Inr (self\<lparr>nc := vars'\<rparr>) \<and>
     map fst vars' = map fst (nc self) \<and>
     (\<forall>name \<in> {''VLST'', ''emis_m15'', ''emis_m16'', ''emis_bbe'', ''Satellite_Azimuth_Angle''}.
        case map_of (nc self) name of
          None \<Rightarrow> map_of vars' name = None
        | Some d \<Rightarrow>
            (\<exists>names s off scaled new_data.
               map_of manual_scalings name = Some names \<and>
               map_of (nc self) (fst names) = Some s \<and>
               map_of (nc self) (snd names) = Some off \<and>
               mul (ndarray_of d) (ndarray_of s) = Inr scaled \<and>
               add scaled (ndarray_of off) = Inr new_data \<and>
               map_of vars' name = Some (d\<lparr>payload_of := snd new_data\<rparr>))) \<and>
     (\<forall>name. name \<notin> {''VLST'', ''emis_m15'', ''emis_m16'', ''emis_bbe'', ''Satellite_Azimuth_Angle''} \<longrightarrow>
        map_of vars' name = map_of (nc self) name)"
proof -
  let ?ks = "map fst (nc self)"
  have pre: "\<forall>k\<in>set ?ks. \<forall>names. map_of manual_scalings k = Some names \<longrightarrow>
           (\<exists>d s off d'. map_of (nc self) k = Some d \<and> map_of (nc self) (fst names) = Some s \<and>
              map_of (nc self) (snd names) = Some off \<and> rescale mul add d s off = Inr d')"
  proof (intro ballI allI impI)
    fix k names
    assume "k \<in> set ?ks" and m: "map_of manual_scalings k = Some names"
    then have "map_of (nc self) k \<noteq> None"
      by (simp add: map_of_eq_None_iff)
    then obtain d where d: "map_of (nc self) k = Some d"
      by blast
    with assms(2) m show "\<exists>d s off d'. map_of (nc self) k = Some d \<and>
        map_of (nc self) (fst names) = Some s \<and>
        map_of (nc self) (snd names) = Some off \<and> rescale mul add d s off = Inr d'"
      by blast
  qed
  have inv: "\<forall>k. k \<in> set ?ks \<or> map_of manual_scalings k = None \<longrightarrow>
      map_of (nc self) k = map_of (nc self) k"
    by simp
  from scale_loop_invariant [OF assms(1) inv pre refl]
  obtain vars' where run: "scale_loop mul add ?ks (nc self) = Inr vars'"
    and keys: "map fst vars' = map fst (nc self)"
    and res: "\<forall>k. (k \<in> set ?ks \<longrightarrow> (\<forall>names. map_of manual_scalings k = Some names \<longrightarrow>
             (\<exists>d s off d'. map_of (nc self) k = Some d \<and> map_of (nc self) (fst names) = Some s \<and>
                map_of (nc self) (snd names) = Some off \<and> rescale mul add d s off = Inr d' \<and>
                map_of vars' k = Some d'))) \<and>
         (k \<notin> set ?ks \<or> map_of manual_scalings k = None \<longrightarrow> map_of vars' k = map_of (nc self) k)"
    by (elim exE conjE)
  have a: "scale_data mul add self = Inr (self\<lparr>nc := vars'\<rparr>)"
    using run by (simp add: scale_data_def bind_err_def)
  have b: "case map_of (nc self) name of
          None \<Rightarrow> map_of vars' name = None
        | Some d \<Rightarrow>
            (\<exists>names s off scaled new_data.
               map_of manual_scalings name = Some names \<and>
               map_of (nc self) (fst names) = Some s \<and>
               map_of (nc self) (snd names) = Some off \<and>
               mul (ndarray_of d) (ndarray_of s) = Inr scaled \<and>
               add scaled (ndarray_of off) = Inr new_data \<and>
               map_of vars' name = Some (d\<lparr>payload_of := snd new_data\<rparr>))"
    if "name \<in> {''VLST'', ''emis_m15'', ''emis_m16'', ''emis_bbe'', ''Satellite_Azimuth_Angle''}"
    for name
  proof (cases "map_of (nc self) name")
    case None
    then have "name \<notin> set ?ks" by (simp add: map_of_eq_None_iff)
    with res None show ?thesis by simp
  next
    case (Some d)
    then have "map_of (nc self) name \<noteq> None" by simp
    then have in_ks: "name \<in> set ?ks"
      by (simp add: map_of_eq_None_iff)
    from manual_scalings_listed [OF that] obtain names
      where m: "map_of manual_scalings name = Some names" ..
    from res in_ks m obtain d0 s off d' where
      r: "map_of (nc self) name = Some d0" "map_of (nc self) (fst names) = Some s"
        "map_of (nc self) (snd names) = Some off" "rescale mul add d0 s off = Inr d'"
        "map_of vars' name = Some d'"
      by blast
    from r(1) Some have d0: "d0 = d" by simp
    from rescale_Inr [OF r(4)] obtain scaled new_data where
      q: "mul (ndarray_of d0) (ndarray_of s) = Inr scaled"
        "add scaled (ndarray_of off) = Inr new_data"
        "d' = d0\<lparr>payload_of := snd new_data\<rparr>"
      by (elim exE conjE)
    have "\<exists>names s off scaled new_data.
               map_of manual_scalings name = Some names \<and>
               map_of (nc self) (fst names) = Some s \<and>
               map_of (nc self) (snd names) = Some off \<and>
               mul (ndarray_of d) (ndarray_of s) = Inr scaled \<and>
               add scaled (ndarray_of off) = Inr new_data \<and>
               map_of vars' name = Some (d\<lparr>payload_of := snd new_data\<rparr>)"
      using m r(2,3,5) q unfolding d0 by (intro exI conjI) (assumption | simp)+
    with Some show ?thesis by simp
  qed
  have c: "map_of vars' name = map_of (nc self) name"
    if "name \<notin> {''VLST'', ''emis_m15'', ''emis_m16'', ''emis_bbe'', ''Satellite_Azimuth_Angle''}"
    for name
  proof -
    from that have "map_of manual_scalings name = None" by (rule manual_scalings_unlisted)
    with res show ?thesis by simp
  qed
  show ?thesis
  proof (intro exI conjI ballI allI impI)
    show "scale_data mul add self = Inr (self\<lparr>nc := vars'\<rparr>)" by (rule a)
    show "map fst vars' = map fst (nc self)" by (rule keys)
  qed (rule b c, assumption)+
qed

lemma ex_rescale:
  "rescale (scalar_arith (*)) (scalar_arith (+))
     \<lparr>shape = [1, 3], payload_of = FloatArr [Some 1, None, Some 3], attrs = [], coords = []\<rparr>
     (ex_scalar 2) (ex_scalar 10) =
   Inr \<lparr>shape = [1, 3], payload_of = FloatArr [Some 12, None, Some 16], attrs = [], coords = []\<rparr>"
  by (simp add: rescale_def scalar_arith_def ndarray_of_def ex_scalar_def bind_err_def as_float_def)

theorem scale_data_rescales_listed_variables_witness:
  "\<exists>vars'. scale_data (scalar_arith (*)) (scalar_arith (+)) ex_lst = Inr (ex_lst\<lparr>nc := vars'\<rparr>) \<and>
     map fst vars' = [''VLST'', ''LST_ScaleFact'', ''LST_Offset'', ''QC''] \<and>
     map_of vars' ''VLST'' =
       Some \<lparr>shape = [1, 3], payload_of = FloatArr [Some 12, None, Some 16], attrs = [], coords = []\<rparr> \<and>
     map_of vars' ''emis_m15'' = None \<and>
     map_of vars' ''LST_ScaleFact'' = Some (ex_scalar 2) \<and>
     map_of vars' ''QC'' =
       Some \<lparr>shape = [1, 3], payload_of = ByteArr [0, 1, 2], attrs = [], coords = []\<rparr>"
proof -
  have d: "distinct (map fst (nc ex_lst))"
    by (simp add: ex_lst_def)
  have p: "\<forall>name names d. map_of manual_scalings name = Some names \<and> map_of (nc ex_lst) name = Some d \<longrightarrow>
           (\<exists>s off d'. map_of (nc ex_lst) (fst names) = Some s \<and>
              map_of (nc ex_lst) (snd names) = Some off \<and>
              rescale (scalar_arith (*)) (scalar_arith (+)) d s off = Inr d')"
    using ex_rescale by (auto simp: manual_scalings_def ex_lst_def split: if_splits)
  from scale_data_rescales_listed_variables [OF d p] obtain vars' where
    r: "scale_data (scalar_arith (*)) (scalar_arith (+)) ex_lst = Inr (ex_lst\<lparr>nc := vars'\<rparr>)"
      "map fst vars' = map fst (nc ex_lst)"
    and s: "\<forall>name \<in> {''VLST'', ''emis_m15'', ''emis_m16'', ''emis_bbe'', ''Satellite_Azimuth_Angle''}.
        case map_of (nc ex_lst) name of
          None \<Rightarrow> map_of vars' name = None
        | Some d \<Rightarrow>
            (\<exists>names s off scaled new_data.
               map_of manual_scalings name = Some names \<and>
               map_of (nc ex_lst) (fst names) = Some s \<and>
               map_of (nc ex_lst) (snd names) = Some off \<and>
               scalar_arith (*) (ndarray_of d) (ndarray_of s) = Inr scaled \<and>
               scalar_arith (+) scaled (ndarray_of off) = Inr new_data \<and>
               map_of vars' name = Some (d\<lparr>payload_of := snd new_data\<rparr>))"
    and u: "\<forall>name. name \<notin> {''VLST'', ''emis_m15'', ''emis_m16'', ''emis_bbe'', ''Satellite_Azimuth_Angle''} \<longrightarrow>
        map_of vars' name = map_of (nc ex_lst) name"
    by (elim exE conjE)
  have "''VLST'' \<in> {''VLST'', ''emis_m15'', ''emis_m16'', ''emis_bbe'', ''Satellite_Azimuth_Angle''}"
    by simp
  from bspec [OF s this]
  have v: "map_of vars' ''VLST'' =
       Some \<lparr>shape = [1, 3], payload_of = FloatArr [Some 12, None, Some 16], attrs = [], coords = []\<rparr>"
    by (auto simp: ex_lst_def manual_scalings_def scalar_arith_def ndarray_of_def ex_scalar_def
        as_float_def)
  have "''emis_m15'' \<in> {''VLST'', ''emis_m15'', ''emis_m16'', ''emis_bbe'', ''Satellite_Azimuth_Angle''}"
    by simp
  from bspec [OF s this]
  have e: "map_of vars' ''emis_m15'' = None"
    by (simp add: ex_lst_def)
  from u [rule_format, of "''LST_ScaleFact''"] u [rule_format, of "''QC''"]
  have o: "map_of vars' ''LST_ScaleFact'' = Some (ex_scalar 2)"
    "map_of vars' ''QC'' =
       Some \<lparr>shape = [1, 3], payload_of = ByteArr [0, 1, 2], attrs = [], coords = []\<rparr>"
    by (simp_all add: ex_lst_def)
  from r(2) have k: "map fst vars' = [''VLST'', ''LST_ScaleFact'', ''LST_Offset'', ''QC'']"
    by (simp add: ex_lst_def)
  from r(1) k v e o show ?thesis
    by (intro exI [of _ vars'] conjI)
qed

subsection \<open>Vegetation-index quality filtering\<close>

lemma flag_bit5: "((q :: 8 word) AND 0b00100000) > 0 \<longleftrightarrow> bit q 5"
proof -
  have "(q AND 2 ^ 5 = 0) = (\<not> bit q 5)" by (rule and_exp_eq_0_iff_not_bit)
  then show ?thesis by (simp add: word_gt_0)
qed

lemma flag_bit3: "((q :: 8 word) AND 0b00001000) > 0 \<longleftrightarrow> bit q 3"
proof -
  have "(q AND 2 ^ 3 = 0) = (\<not> bit q 3)" by (rule and_exp_eq_0_iff_not_bit)
  then show ?thesis by (simp add: word_gt_0)
qed

lemma flag_bit1: "((q :: 8 word) AND 0b00000010) > 0 \<longleftrightarrow> bit q 1"
proof -
  have "(q AND 2 ^ 1 = 0) = (\<not> bit q 1)" by (rule and_exp_eq_0_iff_not_bit)
  then show ?thesis by (simp add: word_gt_0)
qed

lemma chunks_Nil: "chunks n [] = []"
  by (subst chunks.simps) simp

lemma chunks_0: "chunks 0 xs = []"
  by (subst chunks.simps) simp

lemma chunks_step: "0 < n \<Longrightarrow> xs \<noteq> [] \<Longrightarrow> chunks n xs = take n xs # chunks n (drop n xs)"
  by (subst chunks.simps) simp

lemma chunks_Suc0: "chunks (Suc 0) xs = map (\<lambda>x. [x]) xs"
  by (induction xs) (simp_all add: chunks_Nil chunks_step)

lemma length_double_each: "length (concat (map (\<lambda>x. [x, x]) xs)) = 2 * length xs"
  by (induction xs) simp_all

lemma length_double_blocks:
  "length xs = m * n \<Longrightarrow> length (concat (map (\<lambda>b. b @ b) (chunks n xs))) = 2 * m * n"
proof (induction m arbitrary: xs)
  case 0
  then show ?case by (simp add: chunks_Nil)
next
  case (Suc m)
  show ?case
  proof (cases "n = 0")
    case True
    then show ?thesis by (simp add: chunks_0)
  next
    case False
    with Suc.prems have ne: "xs \<noteq> []" by auto
    from Suc.prems have "length (drop n xs) = m * n" by simp
    from Suc.IH [OF this] have ih: "length (concat (map (\<lambda>b. b @ b) (chunks n (drop n xs)))) = 2 * m * n" .
    have "chunks n xs = take n xs # chunks n (drop n xs)"
      using False ne by (simp add: chunks_step)
    with ih Suc.prems show ?thesis by simp
  qed
qed

lemma nth_double_each:
  "k < 2 * length xs \<Longrightarrow> concat (map (\<lambda>x. [x, x]) xs) ! k = xs ! (k div 2)"
proof (induction xs arbitrary: k)
  case Nil
  then show ?case by simp
next
  case (Cons x xs)
  show ?case
  proof (cases "k < 2")
    case True
    then have "k = 0 \<or> k = 1" by auto
    then show ?thesis by auto
  next
    case False
    then have "k = Suc (Suc (k - 2))" by simp
    then obtain k' where k: "k = Suc (Suc k')" ..
    with Cons.prems have "k' < 2 * length xs" by simp
    from Cons.IH [OF this] k show ?thesis by simp
  qed
qed

lemma nth_double_blocks:
  "0 < n \<Longrightarrow> length xs = m * n \<Longrightarrow> i < 2 * m \<Longrightarrow> j < n \<Longrightarrow>
   concat (map (\<lambda>b. b @ b) (chunks n xs)) ! (i * n + j) = xs ! ((i div 2) * n + j)"
proof (induction m arbitrary: xs i)
  case 0
  then show ?case by simp
next
  case (Suc m)
  from Suc.prems have ne: "xs \<noteq> []" by auto
  have ch: "chunks n xs = take n xs # chunks n (drop n xs)"
    using Suc.prems(1) ne by (rule chunks_step)
  let ?A = "take n xs"
  let ?rest = "concat (map (\<lambda>b. b @ b) (chunks n (drop n xs)))"
  from Suc.prems have lenA: "length ?A = n" by simp
  have cc: "concat (map (\<lambda>b. b @ b) (chunks n xs)) = ?A @ ?A @ ?rest"
    by (simp add: ch)
  consider "i = 0" | "i = 1" | "2 \<le> i" by linarith
  then show ?case
  proof cases
    case 1
    with Suc.prems(4) lenA show ?thesis by (simp add: cc nth_append)
  next
    case 2
    with Suc.prems(4) lenA show ?thesis by (simp add: cc nth_append)
  next
    case 3
    then have "i = (i - 2) + 2" by simp
    then obtain i' where i: "i = i' + 2" ..
    with Suc.prems have i': "i' < 2 * m" by simp
    from Suc.prems have ld: "length (drop n xs) = m * n" by simp
    from Suc.IH [OF Suc.prems(1) ld i' Suc.prems(4)]
    have ih: "?rest ! (i' * n + j) = drop n xs ! (i' div 2 * n + j)" .
    have idx: "i * n + j = n + (n + (i' * n + j))" using i by (simp add: algebra_simps)
    have "(?A @ ?A @ ?rest) ! (i * n + j) = ?rest ! (i' * n + j)"
      unfolding idx using lenA by (simp add: nth_append)
    also have "\<dots> = drop n xs ! (i' div 2 * n + j)" by (rule ih)
    also have "\<dots> = xs ! (n + (i' div 2 * n + j))"
    proof -
      have "i' div 2 < m" using i' by simp
      then have "Suc (i' div 2) * n \<le> m * n" by (intro mult_le_mono1) simp
      with Suc.prems(2,4) have "n + (i' div 2 * n + j) \<le> length xs" by simp
      then show ?thesis by simp
    qed
    also have "n + (i' div 2 * n + j) = i div 2 * n + j" using i by (simp add: algebra_simps)
    finally show ?thesis by (simp add: cc)
  qed
qed

lemma or_masks8_length:
  assumes "length a = n" "length b = n" "length c = n" "length d = n"
    "length e = n" "length f = n" "length g = n" "length h = n"
  shows "length (or_masks [a, b, c, d, e, f, g, h]) = n"
  using assms by (simp add: or_masks_def)

lemma or_masks8_nth:
  assumes "length a = n" "length b = n" "length c = n" "length d = n"
    "length e = n" "length f = n" "length g = n" "length h = n" "k < n"
  shows "or_masks [a, b, c, d, e, f, g, h] ! k =
    (a ! k \<or> b ! k \<or> c ! k \<or> d ! k \<or> e ! k \<or> f ! k \<or> g ! k \<or> h ! k)"
  using assms by (simp add: or_masks_def)

lemma repeat_index:
  fixes i j r c :: nat
  assumes "i < 2 * r" "j < 2 * c"
  shows "(i div 2 * (2 * c) + j) div 2 = i div 2 * c + j div 2"
    and "i div 2 * c + j div 2 < r * c"
    and "i div 2 * (2 * c) + j < 2 * (r * c)"
proof -
  have "i div 2 * (2 * c) + j = 2 * (i div 2 * c) + j" by simp
  then show "(i div 2 * (2 * c) + j) div 2 = i div 2 * c + j div 2" by simp
  from assms have "i div 2 < r" "j div 2 < c" by simp_all
  then have "Suc (i div 2) * c \<le> r * c" by (intro mult_le_mono1) simp
  with \<open>j div 2 < c\<close> show "i div 2 * c + j div 2 < r * c" by simp
  from \<open>Suc (i div 2) * c \<le> r * c\<close> assms(2) show "i div 2 * (2 * c) + j < 2 * (r * c)" by simp
qed

lemma repeat2_twice_nth:
  assumes "length bad = r * c" "i < 2 * r" "j < 2 * c"
  shows "concat (map (\<lambda>b. b @ b) (chunks (2 * c)
           (concat (map (\<lambda>b. b @ b) (chunks (Suc 0) bad))))) ! (i * (2 * c) + j) =
         bad ! (i div 2 * c + j div 2)"
proof -
  let ?m1 = "concat (map (\<lambda>b. b @ b) (chunks (Suc 0) bad))"
  have m1: "?m1 = concat (map (\<lambda>x. [x, x]) bad)"
    by (simp add: chunks_Suc0 comp_def)
  have l1: "length ?m1 = r * (2 * c)"
    unfolding m1 using assms(1) by (simp add: length_double_each)
  from assms(3) have pos: "0 < 2 * c" by simp
  have "concat (map (\<lambda>b. b @ b) (chunks (2 * c) ?m1)) ! (i * (2 * c) + j) =
      ?m1 ! (i div 2 * (2 * c) + j)"
    by (rule nth_double_blocks [OF pos l1 assms(2,3)])
  also have "\<dots> = bad ! ((i div 2 * (2 * c) + j) div 2)"
    unfolding m1 using repeat_index(3) [OF assms(2,3)] assms(1)
    by (intro nth_double_each) simp
  also have "\<dots> = bad ! (i div 2 * c + j div 2)"
    by (simp only: repeat_index(1) [OF assms(2,3)])
  finally show ?thesis .
qed

lemma repeat2_twice_length:
  assumes "length bad = r * c"
  shows "length (concat (map (\<lambda>b. b @ b) (chunks (2 * c)
           (concat (map (\<lambda>b. b @ b) (chunks (Suc 0) bad)))))) = 2 * r * (2 * c)"
proof -
  let ?m1 = "concat (map (\<lambda>b. b @ b) (chunks (Suc 0) bad))"
  have m1: "?m1 = concat (map (\<lambda>x. [x, x]) bad)"
    by (simp add: chunks_Suc0 comp_def)
  have l1: "length ?m1 = r * (2 * c)"
    unfolding m1 using assms(1) by (simp add: length_double_each)
  show ?thesis by (rule length_double_blocks [OF l1])
qed

lemma good_mask_eval:
  assumes "map_of (nc self) ''QF1 Surface Reflectance'' = Some q1"
    and "map_of (nc self) ''QF2 Surface Reflectance'' = Some q2"
    and "map_of (nc self) ''QF7 Surface Reflectance'' = Some q7"
    and "payload_of q1 = ByteArr b1" "payload_of q2 = ByteArr b2" "payload_of q7 = ByteArr b7"
    and "shape q1 = [r, c]" "shape q2 = [r, c]" "shape q7 = [r, c]"
  shows "get_veg_index_good_mask self =
    Inr ([2 * r, 2 * c],
      map Not (concat (map (\<lambda>b. b @ b) (chunks (2 * c)
        (concat (map (\<lambda>b. b @ b) (chunks (Suc 0)
          (or_masks
            [map (\<lambda>q. (q AND 0b11000000) > 0) b1,
             map (\<lambda>q. (q AND 0b00001100) > 0) b1,
             map (\<lambda>q. (q AND 0b00000011) < 0b10) b1,
             map (\<lambda>q. (q AND 0b00100000) > 0) b2,
             map (\<lambda>q. (q AND 0b00001000) > 0) b2,
             map (\<lambda>w. w \<le> 0b010 \<or> w = 0b101) (map (\<lambda>q. q AND 0b00000111) b2),
             map (\<lambda>q. (q AND 0b00001100) > 0b1000) b7,
             map (\<lambda>q. (q AND 0b00000010) > 0) b7]))))))))"
  using assms
  by (simp add: get_veg_index_good_mask_def nc_item_def flag_bytes_def bind_err_def Let_def
      np_repeat2_def)

lemma mask_invalid_length:
  assumes "mask_invalid a info = Inr ma"
  shows "length (as_float (payload_of ma)) = length (as_float (payload_of a))"
proof -
  have w: "length (as_float (where_cond p (map2 (\<and>) (scalar_le_arr lo p) (arr_le_scalar p hi)))) =
      length (as_float p)" for p lo hi
    by (simp add: where_cond_def scalar_le_arr_def arr_le_scalar_def as_float_def)
  from assms show ?thesis
    by (auto simp: mask_invalid_def in_range_where_def bind_err_def Let_def w
        split: if_splits sum.splits)
qed

lemma where_cond_nth:
  assumes "k < length (as_float p)" "k < length cond"
  shows "as_float (where_cond p cond) ! k = (if cond ! k then as_float p ! k else None)"
  using assms by (simp add: where_cond_def as_float_def)

lemma where_cond_length:
  "length (as_float (where_cond p cond)) = min (length (as_float p)) (length cond)"
  by (simp add: where_cond_def as_float_def)

lemma bad_mask_nth:
  fixes b1 b2 b7 :: "8 word list"
  assumes "length b1 = n" "length b2 = n" "length b7 = n" "k < n"
  shows "or_masks
            [map (\<lambda>q. (q AND 0b11000000) > 0) b1,
             map (\<lambda>q. (q AND 0b00001100) > 0) b1,
             map (\<lambda>q. (q AND 0b00000011) < 0b10) b1,
             map (\<lambda>q. (q AND 0b00100000) > 0) b2,
             map (\<lambda>q. (q AND 0b00001000) > 0) b2,
             map (\<lambda>w. w \<le> 0b010 \<or> w = 0b101) (map (\<lambda>q. q AND 0b00000111) b2),
             map (\<lambda>q. (q AND 0b00001100) > 0b1000) b7,
             map (\<lambda>q. (q AND 0b00000010) > 0) b7] ! k =
     ((b1 ! k AND 0b11000000) > 0 \<or> (b1 ! k AND 0b00001100) > 0 \<or>
      (b1 ! k AND 0b00000011) < 2 \<or> bit (b2 ! k) 5 \<or> bit (b2 ! k) 3 \<or>
      ((b2 ! k AND 0b111) \<le> 2 \<or> (b2 ! k AND 0b111) = 5) \<or>
      (b7 ! k AND 0b1100) > 0b1000 \<or> bit (b7 ! k) 1)"
proof -
  have "or_masks
            [map (\<lambda>q. (q AND 0b11000000) > 0) b1,
             map (\<lambda>q. (q AND 0b00001100) > 0) b1,
             map (\<lambda>q. (q AND 0b00000011) < 0b10) b1,
             map (\<lambda>q. (q AND 0b00100000) > 0) b2,
             map (\<lambda>q. (q AND 0b00001000) > 0) b2,
             map (\<lambda>w. w \<le> 0b010 \<or> w = 0b101) (map (\<lambda>q. q AND 0b00000111) b2),
             map (\<lambda>q. (q AND 0b00001100) > 0b1000) b7,
             map (\<lambda>q. (q AND 0b00000010) > 0) b7] ! k =
        (map (\<lambda>q. (q AND 0b11000000) > 0) b1 ! k \<or>
             map (\<lambda>q. (q AND 0b00001100) > 0) b1 ! k \<or>
             map (\<lambda>q. (q AND 0b00000011) < 0b10) b1 ! k \<or>
             map (\<lambda>q. (q AND 0b00100000) > 0) b2 ! k \<or>
             map (\<lambda>q. (q AND 0b00001000) > 0) b2 ! k \<or>
             map (\<lambda>w. w \<le> 0b010 \<or> w = 0b101) (map (\<lambda>q. q AND 0b00000111) b2) ! k \<or>
             map (\<lambda>q. (q AND 0b00001100) > 0b1000) b7 ! k \<or>
             map (\<lambda>q. (q AND 0b00000010) > 0) b7 ! k)"
    by (rule or_masks8_nth [where n = n]) (simp_all add: assms)
  also have "\<dots> = ((b1 ! k AND 0b11000000) > 0 \<or> (b1 ! k AND 0b00001100) > 0 \<or>
      (b1 ! k AND 0b00000011) < 2 \<or> bit (b2 ! k) 5 \<or> bit (b2 ! k) 3 \<or>
      ((b2 ! k AND 0b111) \<le> 2 \<or> (b2 ! k AND 0b111) = 5) \<or>
      (b7 ! k AND 0b1100) > 0b1000 \<or> bit (b7 ! k) 1)"
    using assms flag_bit5 [of "b2 ! k"] flag_bit3 [of "b2 ! k"] flag_bit1 [of "b7 ! k"]
    by simp
  finally show ?thesis .
qed

lemma bad_mask_length:
  fixes b1 b2 b7 :: "8 word list"
  assumes "length b1 = n" "length b2 = n" "length b7 = n"
  shows "length (or_masks
            [map (\<lambda>q. (q AND 0b11000000) > 0) b1,
             map (\<lambda>q. (q AND 0b00001100) > 0) b1,
             map (\<lambda>q. (q AND 0b00000011) < 0b10) b1,
             map (\<lambda>q. (q AND 0b00100000) > 0) b2,
             map (\<lambda>q. (q AND 0b00001000) > 0) b2,
             map (\<lambda>w. w \<le> 0b010 \<or> w = 0b101) (map (\<lambda>q. q AND 0b00000111) b2),
             map (\<lambda>q. (q AND 0b00001100) > 0b1000) b7,
             map (\<lambda>q. (q AND 0b00000010) > 0) b7]) = n"
  by (rule or_masks8_length) (simp_all add: assms)

lemma pixel_index:
  fixes i j r c :: nat
  assumes "i < 2 * r" "j < 2 * c"
  shows "i * (2 * c) + j < 2 * r * (2 * c)"
proof -
  from assms(1) have "Suc i * (2 * c) \<le> 2 * r * (2 * c)" by (intro mult_le_mono1) simp
  with assms(2) show ?thesis by simp
qed

text \<open>
  Claim C6. For a dataset whose \<open>file_key\<close> is \<open>NDVI\<close> or \<open>EVI\<close>, with \<open>filter_veg\<close>
  true, quality flags \<open>QF1\<close>, \<open>QF2\<close>, \<open>QF7\<close> of \<open>r\<close> rows and \<open>c\<close> columns and data of
  \<open>2 r\<close> rows and \<open>2 c\<close> columns: the pixel in row \<open>i\<close> and column \<open>j\<close> of the result is
  masked exactly when the flags of the M-band pixel in row \<open>i div 2\<close> and column
  \<open>j div 2\<close> show sun glint, a pixel that is not confidently clear, a low cloud-mask
  quality, snow or ice (bit 5 of \<open>QF2\<close>), a cloud shadow (bit 3 of \<open>QF2\<close>), a water
  class, a high aerosol quantity, or a neighbouring cloud (bit 1 of \<open>QF7\<close>); every other
  pixel is what the base valid-range masking gives. For every other dataset, and for
  every dataset when \<open>filter_veg\<close> is false, the result is that of the base masking.
\<close>

theorem veg_index_quality_masking:
  assumes "mask_invalid data_arr ds_info = Inr base"
    and "dict_item ds_info ''file_key'' = Inr file_key"
  shows
    "(file_key \<in> {VStr ''NDVI'', VStr ''EVI''} \<and> filter_veg self \<and>
      map_of (nc self) ''QF1 Surface Reflectance'' = Some q1 \<and>
      map_of (nc self) ''QF2 Surface Reflectance'' = Some q2 \<and>
      map_of (nc self) ''QF7 Surface Reflectance'' = Some q7 \<and>
      payload_of q1 = ByteArr b1 \<and> payload_of q2 = ByteArr b2 \<and> payload_of q7 = ByteArr b7 \<and>
      shape q1 = [r, c] \<and> shape q2 = [r, c] \<and> shape q7 = [r, c] \<and>
      length b1 = r * c \<and> length b2 = r * c \<and> length b7 = r * c \<and>
      shape data_arr = [2 * r, 2 * c] \<and>
      length (as_float (payload_of data_arr)) = 2 * r * (2 * c) \<longrightarrow>
      (\<exists>res. sr_mask_invalid self data_arr ds_info = Inr res \<and>
         shape res = [2 * r, 2 * c] \<and> attrs res = attrs data_arr \<and>
         length (as_float (payload_of res)) = 2 * r * (2 * c) \<and>
         (\<forall>i j. i < 2 * r \<and> j < 2 * c \<longrightarrow>
            as_float (payload_of res) ! (i * (2 * c) + j) =
              (let m = i div 2 * c + j div 2;
                   qf1 = b1 ! m; qf2 = b2 ! m; qf7 = b7 ! m
               in if (qf1 AND 0b11000000) > 0 \<or> (qf1 AND 0b00001100) > 0 \<or>
                     (qf1 AND 0b00000011) < 2 \<or> bit qf2 5 \<or> bit qf2 3 \<or>
                     ((qf2 AND 0b111) \<le> 2 \<or> (qf2 AND 0b111) = 5) \<or>
                     (qf7 AND 0b1100) > 0b1000 \<or> bit qf7 1
                  then None
                  else as_float (payload_of base) ! (i * (2 * c) + j))))) \<and>
     (\<not> (file_key \<in> {VStr ''NDVI'', VStr ''EVI''} \<and> filter_veg self) \<longrightarrow>
        sr_mask_invalid self data_arr ds_info = Inr base)"
proof (intro conjI impI)
  assume "\<not> (file_key \<in> {VStr ''NDVI'', VStr ''EVI''} \<and> filter_veg self)"
  with assms show "sr_mask_invalid self data_arr ds_info = Inr base"
    by (auto simp: sr_mask_invalid_def bind_err_def)
next
  assume a: "file_key \<in> {VStr ''NDVI'', VStr ''EVI''} \<and> filter_veg self \<and>
      map_of (nc self) ''QF1 Surface Reflectance'' = Some q1 \<and>
      map_of (nc self) ''QF2 Surface Reflectance'' = Some q2 \<and>
      map_of (nc self) ''QF7 Surface Reflectance'' = Some q7 \<and>
      payload_of q1 = ByteArr b1 \<and> payload_of q2 = ByteArr b2 \<and> payload_of q7 = ByteArr b7 \<and>
      shape q1 = [r, c] \<and> shape q2 = [r, c] \<and> shape q7 = [r, c] \<and>
      length b1 = r * c \<and> length b2 = r * c \<and> length b7 = r * c \<and>
      shape data_arr = [2 * r, 2 * c] \<and>
      length (as_float (payload_of data_arr)) = 2 * r * (2 * c)"
  define bad where "bad = or_masks
            [map (\<lambda>q. (q AND 0b11000000) > 0) b1,
             map (\<lambda>q. (q AND 0b00001100) > 0) b1,
             map (\<lambda>q. (q AND 0b00000011) < 0b10) b1,
             map (\<lambda>q. (q AND 0b00100000) > 0) b2,
             map (\<lambda>q. (q AND 0b00001000) > 0) b2,
             map (\<lambda>w. w \<le> 0b010 \<or> w = 0b101) (map (\<lambda>q. q AND 0b00000111) b2),
             map (\<lambda>q. (q AND 0b00001100) > 0b1000) b7,
             map (\<lambda>q. (q AND 0b00000010) > 0) b7]"
  define rep where "rep = concat (map (\<lambda>b. b @ b) (chunks (2 * c)
        (concat (map (\<lambda>b. b @ b) (chunks (Suc 0) bad)))))"
  from a have lens: "length b1 = r * c" "length b2 = r * c" "length b7 = r * c" by blast+
  from a have qf:
    "map_of (nc self) ''QF1 Surface Reflectance'' = Some q1"
    "map_of (nc self) ''QF2 Surface Reflectance'' = Some q2"
    "map_of (nc self) ''QF7 Surface Reflectance'' = Some q7"
    "payload_of q1 = ByteArr b1" "payload_of q2 = ByteArr b2" "payload_of q7 = ByteArr b7"
    "shape q1 = [r, c]" "shape q2 = [r, c]" "shape q7 = [r, c]"
    by blast+
  have gm: "get_veg_index_good_mask self = Inr ([2 * r, 2 * c], map Not rep)"
    unfolding rep_def bad_def by (rule good_mask_eval [OF qf])
  have lbad: "length bad = r * c"
    unfolding bad_def by (rule bad_mask_length [OF lens])
  have lrep: "length rep = 2 * r * (2 * c)"
    unfolding rep_def by (rule repeat2_twice_length [OF lbad])
  note mf = mask_invalid_fields [OF assms(1)]
  from a mf have sb: "shape base = [2 * r, 2 * c]" by simp
  from a mask_invalid_length [OF assms(1)]
  have lb: "length (as_float (payload_of base)) = 2 * r * (2 * c)" by simp
  let ?res = "base\<lparr>payload_of := where_cond (payload_of base) (map Not rep)\<rparr>"
  have run: "sr_mask_invalid self data_arr ds_info = Inr ?res"
    using assms a gm sb by (simp add: sr_mask_invalid_def bind_err_def)
  have lres: "length (as_float (payload_of ?res)) = 2 * r * (2 * c)"
    using lb lrep by (simp add: where_cond_length)
  have px: "as_float (payload_of ?res) ! (i * (2 * c) + j) =
              (let m = i div 2 * c + j div 2;
                   qf1 = b1 ! m; qf2 = b2 ! m; qf7 = b7 ! m
               in if (qf1 AND 0b11000000) > 0 \<or> (qf1 AND 0b00001100) > 0 \<or>
                     (qf1 AND 0b00000011) < 2 \<or> bit qf2 5 \<or> bit qf2 3 \<or>
                     ((qf2 AND 0b111) \<le> 2 \<or> (qf2 AND 0b111) = 5) \<or>
                     (qf7 AND 0b1100) > 0b1000 \<or> bit qf7 1
                  then None
                  else as_float (payload_of base) ! (i * (2 * c) + j))"
    if ij: "i < 2 * r \<and> j < 2 * c" for i j
  proof -
    from ij have i: "i < 2 * r" and j: "j < 2 * c" by simp_all
    let ?k = "i * (2 * c) + j"
    let ?m = "i div 2 * c + j div 2"
    from pixel_index [OF i j] have k: "?k < 2 * r * (2 * c)" .
    have m: "?m < r * c" by (rule repeat_index(2) [OF i j])
    have "rep ! ?k = bad ! ?m"
      unfolding rep_def by (rule repeat2_twice_nth [OF lbad i j])
    also have "\<dots> = ((b1 ! ?m AND 0b11000000) > 0 \<or> (b1 ! ?m AND 0b00001100) > 0 \<or>
      (b1 ! ?m AND 0b00000011) < 2 \<or> bit (b2 ! ?m) 5 \<or> bit (b2 ! ?m) 3 \<or>
      ((b2 ! ?m AND 0b111) \<le> 2 \<or> (b2 ! ?m AND 0b111) = 5) \<or>
      (b7 ! ?m AND 0b1100) > 0b1000 \<or> bit (b7 ! ?m) 1)"
      unfolding bad_def by (rule bad_mask_nth [OF lens m])
    finally have r: "rep ! ?k = ((b1 ! ?m AND 0b11000000) > 0 \<or> (b1 ! ?m AND 0b00001100) > 0 \<or>
      (b1 ! ?m AND 0b00000011) < 2 \<or> bit (b2 ! ?m) 5 \<or> bit (b2 ! ?m) 3 \<or>
      ((b2 ! ?m AND 0b111) \<le> 2 \<or> (b2 ! ?m AND 0b111) = 5) \<or>
      (b7 ! ?m AND 0b1100) > 0b1000 \<or> bit (b7 ! ?m) 1)" .
    have "as_float (payload_of ?res) ! ?k =
        (if map Not rep ! ?k then as_float (payload_of base) ! ?k else None)"
      using k lb lrep by (simp add: where_cond_nth)
    also have "\<dots> = (if rep ! ?k then None else as_float (payload_of base) ! ?k)"
      using k lrep by simp
    finally show ?thesis
      unfolding r by (simp only: Let_def)
  qed
  show "\<exists>res. sr_mask_invalid self data_arr ds_info = Inr res \<and>
         shape res = [2 * r, 2 * c] \<and> attrs res = attrs data_arr \<and>
         length (as_float (payload_of res)) = 2 * r * (2 * c) \<and>
         (\<forall>i j. i < 2 * r \<and> j < 2 * c \<longrightarrow>
            as_float (payload_of res) ! (i * (2 * c) + j) =
              (let m = i div 2 * c + j div 2;
                   qf1 = b1 ! m; qf2 = b2 ! m; qf7 = b7 ! m
               in if (qf1 AND 0b11000000) > 0 \<or> (qf1 AND 0b00001100) > 0 \<or>
                     (qf1 AND 0b00000011) < 2 \<or> bit qf2 5 \<or> bit qf2 3 \<or>
                     ((qf2 AND 0b111) \<le> 2 \<or> (qf2 AND 0b111) = 5) \<or>
                     (qf7 AND 0b1100) > 0b1000 \<or> bit qf7 1
                  then None
                  else as_float (payload_of base) ! (i * (2 * c) + j)))"
  proof (intro exI [of _ ?res] conjI allI impI)
    show "sr_mask_invalid self data_arr ds_info = Inr ?res" by (rule run)
    show "shape ?res = [2 * r, 2 * c]" using sb by simp
    show "attrs ?res = attrs data_arr" using mf by simp
    show "length (as_float (payload_of ?res)) = 2 * r * (2 * c)" by (rule lres)
  qed (rule px)
qed

lemma ex_ndvi_masked: "mask_invalid ex_ndvi [(''file_key'', k)] = Inr ex_ndvi"
  by (simp add: mask_invalid_def ex_ndvi_def dict_get_def)

theorem veg_index_quality_masking_witness:
  "(\<exists>res. sr_mask_invalid ex_sr ex_ndvi [(''file_key'', VStr ''NDVI'')] = Inr res \<and>
      shape res = [2, 4] \<and> length (as_float (payload_of res)) = 8 \<and>
      as_float (payload_of res) ! 1 = Some (2/10) \<and>
      as_float (payload_of res) ! 5 = None \<and>
      as_float (payload_of res) ! 6 = None) \<and>
   sr_mask_invalid (ex_sr\<lparr>filter_veg := False\<rparr>) ex_ndvi [(''file_key'', VStr ''NDVI'')] = Inr ex_ndvi \<and>
   sr_mask_invalid ex_sr ex_ndvi [(''file_key'', VStr ''QF1 Surface Reflectance'')] = Inr ex_ndvi"
proof -
  have key: "dict_item [(''file_key'', k)] ''file_key'' = Inr k" for k
    by (simp add: dict_item_def)
  note on = veg_index_quality_masking [OF ex_ndvi_masked key, of "VStr ''NDVI''" ex_sr
      "ex_flags [0b00000010, 0b00000110]" "ex_flags [0b00000011, 0b00000011]" "ex_flags [0, 0]"
      "[0b00000010, 0b00000110]" "[0b00000011, 0b00000011]" "[0, 0]" 1 2]
  then obtain res where run: "sr_mask_invalid ex_sr ex_ndvi [(''file_key'', VStr ''NDVI'')] = Inr res"
    and sh: "shape res = [2 * 1, 2 * 2]"
    and len: "length (as_float (payload_of res)) = 2 * 1 * (2 * 2)"
    and px: "\<forall>i j. i < 2 * 1 \<and> j < 2 * 2 \<longrightarrow>
            as_float (payload_of res) ! (i * (2 * 2) + j) =
              (let m = i div 2 * 2 + j div 2;
                   qf1 = [0b00000010, 0b00000110 :: 8 word] ! m;
                   qf2 = [0b00000011, 0b00000011 :: 8 word] ! m; qf7 = [0, 0 :: 8 word] ! m
               in if (qf1 AND 0b11000000) > 0 \<or> (qf1 AND 0b00001100) > 0 \<or>
                     (qf1 AND 0b00000011) < 2 \<or> bit qf2 5 \<or> bit qf2 3 \<or>
                     ((qf2 AND 0b111) \<le> 2 \<or> (qf2 AND 0b111) = 5) \<or>
                     (qf7 AND 0b1100) > 0b1000 \<or> bit qf7 1
                  then None
                  else as_float (payload_of ex_ndvi) ! (i * (2 * 2) + j))"
    by (auto simp: ex_sr_def ex_flags_def ex_ndvi_def as_float_def)
  from px [rule_format, of 0 1] have p1: "as_float (payload_of res) ! 1 = Some (2/10)"
    by (simp add: ex_ndvi_def as_float_def)
  from px [rule_format, of 1 1] have p5: "as_float (payload_of res) ! 5 = None"
    by (simp add: ex_ndvi_def as_float_def)
  from px [rule_format, of 1 2] have p6: "as_float (payload_of res) ! 6 = None"
    by (simp add: ex_ndvi_def as_float_def)
  from veg_index_quality_masking [OF ex_ndvi_masked key, of "VStr ''NDVI''" "ex_sr\<lparr>filter_veg := False\<rparr>"]
  have off: "sr_mask_invalid (ex_sr\<lparr>filter_veg := False\<rparr>) ex_ndvi [(''file_key'', VStr ''NDVI'')] = Inr ex_ndvi"
    by simp
  from veg_index_quality_masking [OF ex_ndvi_masked key, of "VStr ''QF1 Surface Reflectance''" ex_sr]
  have other: "sr_mask_invalid ex_sr ex_ndvi [(''file_key'', VStr ''QF1 Surface Reflectance'')] = Inr ex_ndvi"
    by simp
  from run sh len p1 p5 p6 off other show ?thesis by simp
qed

end
